theory Spec2Isabelle
  imports Main "HOL-Library.Sublist"
begin

section \<open>JSON values and the Python operations applied to them\<close>

text \<open>
  The server works on the document returned by \<^verbatim>\<open>response.json()\<close>: Python's \<^verbatim>\<open>None\<close>,
  booleans, integers, strings, lists and dictionaries with string keys. A dictionary is an
  association list (a key is looked up by its first occurrence). Strings are lists of
  characters with code points 0 to 255; non-integer numbers are not part of the model.
\<close>

datatype json = JNull | JBool bool | JInt int | JStr string | JList "json list"
  | JObj "(string \<times> json) list"

text \<open>An exception carries the text that \<^verbatim>\<open>str(e)\<close> gives. \<open>LibraryError\<close> stands for the
  exceptions of the HTTP and JSON libraries, which derive from \<^verbatim>\<open>Exception\<close>;
  \<open>CancelledError\<close> is \<^verbatim>\<open>asyncio.CancelledError\<close>, raised at an \<^verbatim>\<open>await\<close> when the task is
  cancelled, which derives from \<^verbatim>\<open>BaseException\<close> only.\<close>

datatype exn = AttributeError string | TypeError string | KeyError string
  | IndexError string | LibraryError string | CancelledError string

fun exn_str :: "exn \<Rightarrow> string" where
  "exn_str (AttributeError m) = m"
| "exn_str (TypeError m) = m"
| "exn_str (KeyError m) = m"
| "exn_str (IndexError m) = m"
| "exn_str (LibraryError m) = m"
| "exn_str (CancelledError m) = m"

text \<open>The exceptions that \<^verbatim>\<open>except Exception\<close> catches.\<close>

fun is_exception :: "exn \<Rightarrow> bool" where
  "is_exception (CancelledError m) = False"
| "is_exception e = True"

text \<open>Sequencing of statements that may raise: the first exception ends the run.\<close>

definition seq :: "exn + 'a \<Rightarrow> ('a \<Rightarrow> exn + 'b) \<Rightarrow> exn + 'b" where
  "seq m f = (case m of Inl e \<Rightarrow> Inl e | Inr x \<Rightarrow> f x)"

definition sq :: string where
  "sq = [CHR 0x27]"

fun type_name :: "json \<Rightarrow> string" where
  "type_name JNull = ''NoneType''"
| "type_name (JBool b) = ''bool''"
| "type_name (JInt i) = ''int''"
| "type_name (JStr s) = ''str''"
| "type_name (JList xs) = ''list''"
| "type_name (JObj kvs) = ''dict''"

definition no_attribute :: "json \<Rightarrow> string \<Rightarrow> exn" where
  "no_attribute v a =
     AttributeError (sq @ type_name v @ sq @ '' object has no attribute '' @ sq @ a @ sq)"

definition not_subscriptable :: "json \<Rightarrow> exn" where
  "not_subscriptable v = TypeError (sq @ type_name v @ sq @ '' object is not subscriptable'')"

text \<open>\<^verbatim>\<open>bool(v)\<close>, the test of an \<^verbatim>\<open>if v:\<close>.\<close>

fun truthy :: "json \<Rightarrow> bool" where
  "truthy JNull = False"
| "truthy (JBool b) = b"
| "truthy (JInt i) = (i \<noteq> 0)"
| "truthy (JStr s) = (s \<noteq> [])"
| "truthy (JList xs) = (xs \<noteq> [])"
| "truthy (JObj kvs) = (kvs \<noteq> [])"

text \<open>\<^verbatim>\<open>v.get(k, d)\<close>: only a dictionary has the method.\<close>

fun py_get :: "json \<Rightarrow> string \<Rightarrow> json \<Rightarrow> exn + json" where
  "py_get (JObj kvs) k d = Inr (case map_of kvs k of Some v \<Rightarrow> v | None \<Rightarrow> d)"
| "py_get v k d = Inl (no_attribute v ''get'')"

text \<open>\<^verbatim>\<open>for x in v\<close>: a dictionary yields its keys, a string its characters.\<close>

fun py_iter :: "json \<Rightarrow> exn + json list" where
  "py_iter (JList xs) = Inr xs"
| "py_iter (JObj kvs) = Inr (map (\<lambda>kv. JStr (fst kv)) kvs)"
| "py_iter (JStr s) = Inr (map (\<lambda>c. JStr [c]) s)"
| "py_iter v = Inl (TypeError (sq @ type_name v @ sq @ '' object is not iterable''))"

text \<open>The stop index of \<^verbatim>\<open>xs[:n]\<close> on a sequence of length \<open>len\<close>: a negative \<open>n\<close> counts
  from the end. A dictionary cannot be sliced; the exception is the one of Python up to
  3.11 (later versions raise a \<^verbatim>\<open>KeyError\<close> there).\<close>

definition slice_stop :: "nat \<Rightarrow> int \<Rightarrow> nat" where
  "slice_stop len n = (if n < 0 then nat (int len + n) else nat n)"

fun py_slice_to :: "json \<Rightarrow> int \<Rightarrow> exn + json" where
  "py_slice_to (JList xs) n = Inr (JList (take (slice_stop (length xs) n) xs))"
| "py_slice_to (JStr s) n = Inr (JStr (take (slice_stop (length s) n) s))"
| "py_slice_to (JObj kvs) n = Inl (TypeError (''unhashable type: '' @ sq @ ''slice'' @ sq))"
| "py_slice_to v n = Inl (not_subscriptable v)"

text \<open>\<^verbatim>\<open>v[0]\<close>.\<close>

fun py_first :: "json \<Rightarrow> exn + json" where
  "py_first (JList []) = Inl (IndexError ''list index out of range'')"
| "py_first (JList (x # xs)) = Inr x"
| "py_first (JStr []) = Inl (IndexError ''string index out of range'')"
| "py_first (JStr (c # cs)) = Inr (JStr [c])"
| "py_first (JObj kvs) = Inl (KeyError ''0'')"
| "py_first v = Inl (not_subscriptable v)"

fun py_len :: "json \<Rightarrow> exn + nat" where
  "py_len (JList xs) = Inr (length xs)"
| "py_len (JStr s) = Inr (length s)"
| "py_len (JObj kvs) = Inr (length kvs)"
| "py_len v = Inl (TypeError (''object of type '' @ sq @ type_name v @ sq @ '' has no len()''))"

subsection \<open>Strings\<close>

text \<open>\<^verbatim>\<open>str.lower()\<close> on code points 0 to 255: the letters A to Z and the capital letters
  from 192 to 222 (but the multiplication sign, 215) move up by 32.\<close>

definition lower_char :: "char \<Rightarrow> char" where
  "lower_char c =
     (let n = (of_char c :: nat) in
      if (65 \<le> n \<and> n \<le> 90) \<or> (192 \<le> n \<and> n \<le> 222 \<and> n \<noteq> 215) then char_of (n + 32) else c)"

definition lower :: "string \<Rightarrow> string" where
  "lower s = map lower_char s"

fun py_lower :: "json \<Rightarrow> exn + string" where
  "py_lower (JStr s) = Inr (lower s)"
| "py_lower v = Inl (no_attribute v ''lower'')"

text \<open>\<^verbatim>\<open>q in s\<close> on strings: \<open>q\<close> starts at some position of \<open>s\<close>.\<close>

fun str_in :: "string \<Rightarrow> string \<Rightarrow> bool" where
  "str_in q [] = (q = [])"
| "str_in q (c # cs) = (prefix q (c # cs) \<or> str_in q cs)"

fun join :: "string \<Rightarrow> string list \<Rightarrow> string" where
  "join sep [] = []"
| "join sep [x] = x"
| "join sep (x # y # ys) = x @ sep @ join sep (y # ys)"

definition digit_char :: "nat \<Rightarrow> char" where
  "digit_char d = char_of (48 + d)"

function str_nat :: "nat \<Rightarrow> string" where
  "str_nat n = (if n < 10 then [digit_char n] else str_nat (n div 10) @ [digit_char (n mod 10)])"
  by pat_completeness auto
termination
  by (relation "measure id") auto

declare str_nat.simps [simp del]

definition str_int :: "int \<Rightarrow> string" where
  "str_int i = (if i < 0 then ''-'' @ str_nat (nat (- i)) else str_nat (nat i))"

definition hex_digit :: "nat \<Rightarrow> char" where
  "hex_digit d = (if d < 10 then char_of (48 + d) else char_of (87 + d))"

text \<open>\<^verbatim>\<open>repr\<close> of a string: single quotes, unless the string has a single quote and no
  double quote; the backslash, the quote and the characters that do not print are escaped.\<close>

definition repr_char :: "char \<Rightarrow> char \<Rightarrow> string" where
  "repr_char quote c =
     (let n = (of_char c :: nat) in
      if c = CHR 0x5C then [CHR 0x5C, CHR 0x5C]
      else if c = quote then [CHR 0x5C, quote]
      else if n = 9 then [CHR 0x5C, CHR ''t'']
      else if n = 10 then [CHR 0x5C, CHR ''n'']
      else if n = 13 then [CHR 0x5C, CHR ''r'']
      else if n < 32 \<or> (127 \<le> n \<and> n \<le> 160) \<or> n = 173
        then [CHR 0x5C, CHR ''x'', hex_digit (n div 16), hex_digit (n mod 16)]
      else [c])"

definition repr_str :: "string \<Rightarrow> string" where
  "repr_str s =
     (let quote = (if CHR 0x27 \<in> set s \<and> CHR 0x22 \<notin> set s then CHR 0x22 else CHR 0x27)
      in [quote] @ concat (map (repr_char quote) s) @ [quote])"

fun py_repr :: "json \<Rightarrow> string" where
  "py_repr JNull = ''None''"
| "py_repr (JBool b) = (if b then ''True'' else ''False'')"
| "py_repr (JInt i) = str_int i"
| "py_repr (JStr s) = repr_str s"
| "py_repr (JList xs) = ''['' @ join '', '' (map py_repr xs) @ '']''"
| "py_repr (JObj kvs) =
     ''{'' @ join '', '' (map (\<lambda>(k, v). repr_str k @ '': '' @ py_repr v) kvs) @ ''}''"

text \<open>\<^verbatim>\<open>str(v)\<close>, which is also what an f-string writes for \<^verbatim>\<open>{v}\<close>.\<close>

fun py_str :: "json \<Rightarrow> string" where
  "py_str (JStr s) = s"
| "py_str v = py_repr v"

text \<open>\<^verbatim>\<open>sep.join(items)\<close>: every item must be a string.\<close>

fun join_items :: "nat \<Rightarrow> json list \<Rightarrow> exn + string list" where
  "join_items i [] = Inr []"
| "join_items i (JStr s # xs) = seq (join_items (Suc i) xs) (\<lambda>ss. Inr (s # ss))"
| "join_items i (v # xs) =
     Inl (TypeError (''sequence item '' @ str_nat i @ '': expected str instance, ''
                     @ type_name v @ '' found''))"

definition py_join :: "string \<Rightarrow> json list \<Rightarrow> exn + string" where
  "py_join sep xs = seq (join_items 0 xs) (\<lambda>ss. Inr (join sep ss))"

section \<open>The data fetcher\<close>

text \<open>
  The reply of one \<^verbatim>\<open>client.get\<close>: the call raises, or gives a response on which
  \<^verbatim>\<open>raise_for_status()\<close> raises or not, and whose \<^verbatim>\<open>json()\<close> raises or gives a document.
  The network is a function from the number of requests already sent to the reply of the
  next one. The process state is the module-level cache (\<^verbatim>\<open>None\<close> is \<open>JNull\<close>) and the
  number of requests sent so far.
\<close>

datatype http_response = Response (status_error: "exn option") (json_body: "exn + json")

type_synonym network = "nat \<Rightarrow> exn + http_response"

record state =
  services_cache :: json
  requests :: nat

definition initial_state :: state where
  "initial_state = \<lparr>services_cache = JNull, requests = 0\<rparr>"

text \<open>
  The coroutine runs in two steps, with the \<^verbatim>\<open>await\<close> of the request between them, where
  other invocations may run. The first step tests the cache: it returns the cached value,
  or sends a request and suspends. The second step runs when the reply of that request
  arrives: the status check, the parsing and the write of the cache, with no \<^verbatim>\<open>await\<close>
  among them.
\<close>

datatype fetch_progress = Cached json | Pending nat

definition fetch_begin :: "state \<Rightarrow> fetch_progress \<times> state" where
  "fetch_begin st =
     (if services_cache st \<noteq> JNull then (Cached (services_cache st), st)
      else (Pending (requests st), st\<lparr>requests := Suc (requests st)\<rparr>))"

definition fetch_complete :: "network \<Rightarrow> nat \<Rightarrow> state \<Rightarrow> (exn + json) \<times> state" where
  "fetch_complete net i st =
     (case net i of
        Inl e \<Rightarrow> (Inl e, st)
      | Inr response \<Rightarrow>
          (case status_error response of
             Some e \<Rightarrow> (Inl e, st)
           | None \<Rightarrow>
               (case json_body response of
                  Inl e \<Rightarrow> (Inl e, st)
                | Inr doc \<Rightarrow> (Inr doc, st\<lparr>services_cache := doc\<rparr>))))"

text \<open>A call of the fetcher that nothing else interleaves with.\<close>

definition fetch_services_data :: "network \<Rightarrow> state \<Rightarrow> (exn + json) \<times> state" where
  "fetch_services_data net st =
     (case fetch_begin st of
        (Cached d, st1) \<Rightarrow> (Inr d, st1)
      | (Pending i, st1) \<Rightarrow> fetch_complete net i st1)"

section \<open>Query functions\<close>

record search_result =
  sr_id :: json
  sr_name :: json
  sr_description :: json
  sr_url :: json
  sr_fees :: json

text \<open>The description of a result: \<^verbatim>\<open>d[:200] + "..." if len(d) > 200 else d\<close>. The value is
  a string here, \<^verbatim>\<open>lower()\<close> having been called on it before.\<close>

fun truncated :: "json \<Rightarrow> json" where
  "truncated (JStr d) = JStr (if length d > 200 then take 200 d @ ''...'' else d)"
| "truncated v = v"

definition search_body :: "string \<Rightarrow> json \<Rightarrow> exn + search_result option" where
  "search_body query_lower service =
     seq (py_get service ''name'' (JStr [])) (\<lambda>n0.
     seq (py_lower n0) (\<lambda>name.
     seq (py_get service ''description'' (JStr [])) (\<lambda>d0.
     seq (py_lower d0) (\<lambda>description.
       if str_in query_lower name \<or> str_in query_lower description then
         seq (py_get service ''id'' JNull) (\<lambda>i.
         seq (py_get service ''name'' JNull) (\<lambda>n.
         seq (py_get service ''meta'' (JObj [])) (\<lambda>meta.
         seq (py_get meta ''url'' (JStr [])) (\<lambda>url.
         seq (py_get service ''fees'' (JStr [])) (\<lambda>fees.
           Inr (Some \<lparr>sr_id = i, sr_name = n, sr_description = truncated d0,
                      sr_url = url, sr_fees = fees\<rparr>))))))
       else Inr None))))"

fun search_loop :: "string \<Rightarrow> json list \<Rightarrow> exn + search_result list" where
  "search_loop query_lower [] = Inr []"
| "search_loop query_lower (service # rest) =
     seq (search_body query_lower service) (\<lambda>r.
     seq (search_loop query_lower rest) (\<lambda>results.
       Inr (case r of None \<Rightarrow> results | Some x \<Rightarrow> x # results)))"

definition search_services :: "json \<Rightarrow> json \<Rightarrow> exn + search_result list" where
  "search_services data query =
     seq (py_lower query) (\<lambda>query_lower.
     seq (py_get data ''data'' (JList [])) (\<lambda>d.
     seq (py_iter d) (\<lambda>services. search_loop query_lower services)))"

fun get_service_loop :: "json list \<Rightarrow> json \<Rightarrow> exn + json option" where
  "get_service_loop [] service_id = Inr None"
| "get_service_loop (service # rest) service_id =
     seq (py_get service ''id'' JNull) (\<lambda>i.
       if py_str i = py_str service_id then Inr (Some service)
       else get_service_loop rest service_id)"

definition get_service_by_id :: "json \<Rightarrow> json \<Rightarrow> exn + json option" where
  "get_service_by_id data service_id =
     seq (py_get data ''data'' (JList [])) (\<lambda>d.
     seq (py_iter d) (\<lambda>services. get_service_loop services service_id))"

record list_item =
  li_id :: json
  li_name :: json
  li_url :: json

definition list_body :: "json \<Rightarrow> exn + list_item" where
  "list_body service =
     seq (py_get service ''id'' JNull) (\<lambda>i.
     seq (py_get service ''name'' JNull) (\<lambda>n.
     seq (py_get service ''meta'' (JObj [])) (\<lambda>meta.
     seq (py_get meta ''url'' (JStr [])) (\<lambda>url.
       Inr \<lparr>li_id = i, li_name = n, li_url = url\<rparr>))))"

fun list_loop :: "json list \<Rightarrow> exn + list_item list" where
  "list_loop [] = Inr []"
| "list_loop (service # rest) =
     seq (list_body service) (\<lambda>x. seq (list_loop rest) (\<lambda>services. Inr (x # services)))"

definition list_all_services :: "json \<Rightarrow> int \<Rightarrow> exn + list_item list" where
  "list_all_services data limit =
     seq (py_get data ''data'' (JList [])) (\<lambda>d.
     seq (py_slice_to d limit) (\<lambda>p.
     seq (py_iter p) (\<lambda>services. list_loop services)))"

section \<open>The formatter\<close>

text \<open>The lines of the document are collected in a list, whose items are joined by a newline
  at the end. An item taken from the record as it is may be any value.\<close>

definition header_lines :: "json \<Rightarrow> exn + json list" where
  "header_lines service =
     seq (py_get service ''name'' (JStr ''N/A'')) (\<lambda>name.
     seq (py_get service ''id'' (JStr ''N/A'')) (\<lambda>i.
     seq (py_get service ''meta'' (JObj [])) (\<lambda>meta.
     seq (py_get meta ''url'' (JStr ''N/A'')) (\<lambda>url.
     seq (py_get service ''description'' (JStr ''N/A'')) (\<lambda>description.
     seq (py_get service ''fees'' (JStr ''N/A'')) (\<lambda>fees.
     seq (py_get service ''process_time'' (JStr ''N/A'')) (\<lambda>process_time.
       Inr [JStr (''# '' @ py_str name),
            JStr (''\<newline>**ID:** '' @ py_str i),
            JStr (''**URL:** '' @ py_str url),
            JStr ''\<newline>## Description'',
            description,
            JStr ''\<newline>## Fees'',
            fees,
            JStr ''\<newline>## Process Time'',
            process_time])))))))"

fun requirement_loop :: "json list \<Rightarrow> exn + json list" where
  "requirement_loop [] = Inr []"
| "requirement_loop (req # rest) =
     seq (py_get req ''name'' (JStr ''N/A'')) (\<lambda>n.
     seq (py_get req ''description'' (JStr [])) (\<lambda>d.
     seq (requirement_loop rest) (\<lambda>ls.
       Inr (JStr (''\<newline>### '' @ py_str n) # d # ls))))"

definition requirements_lines :: "json \<Rightarrow> exn + json list" where
  "requirements_lines service =
     seq (py_get service ''requirements'' (JList [])) (\<lambda>requirements.
       if truthy requirements then
         seq (py_iter requirements) (\<lambda>reqs.
         seq (requirement_loop reqs) (\<lambda>ls. Inr (JStr ''\<newline>## Requirements'' # ls)))
       else Inr [])"

text \<open>The loop of the prerequisites, and of the authorities: one bullet with the name.\<close>

fun name_bullet_loop :: "json list \<Rightarrow> exn + json list" where
  "name_bullet_loop [] = Inr []"
| "name_bullet_loop (x # rest) =
     seq (py_get x ''name'' (JStr ''N/A'')) (\<lambda>n.
     seq (name_bullet_loop rest) (\<lambda>ls. Inr (JStr (''- '' @ py_str n) # ls)))"

definition prerequisites_lines :: "json \<Rightarrow> exn + json list" where
  "prerequisites_lines service =
     seq (py_get service ''prerequisites'' (JList [])) (\<lambda>prerequisites.
       if truthy prerequisites then
         seq (py_first prerequisites) (\<lambda>first.
         seq (py_get first ''name'' JNull) (\<lambda>n.
           if n \<noteq> JStr ''keine'' then
             seq (py_iter prerequisites) (\<lambda>ps.
             seq (name_bullet_loop ps) (\<lambda>ls. Inr (JStr ''\<newline>## Prerequisites'' # ls)))
           else Inr []))
       else Inr [])"

text \<open>The loop of the forms, and of the legal references: a link when the entry has one.\<close>

fun link_bullet_loop :: "json list \<Rightarrow> exn + json list" where
  "link_bullet_loop [] = Inr []"
| "link_bullet_loop (x # rest) =
     seq (py_get x ''name'' (JStr ''N/A'')) (\<lambda>name.
     seq (py_get x ''link'' (JStr [])) (\<lambda>link.
     seq (link_bullet_loop rest) (\<lambda>ls.
       Inr ((if truthy link then JStr (''- ['' @ py_str name @ '']('' @ py_str link @ '')'')
             else JStr (''- '' @ py_str name)) # ls))))"

definition forms_lines :: "json \<Rightarrow> exn + json list" where
  "forms_lines service =
     seq (py_get service ''forms'' (JList [])) (\<lambda>forms.
       if truthy forms then
         seq (py_iter forms) (\<lambda>fs.
         seq (link_bullet_loop fs) (\<lambda>ls. Inr (JStr ''\<newline>## Forms'' # ls)))
       else Inr [])"

definition online_lines :: "json \<Rightarrow> exn + json list" where
  "online_lines service =
     seq (py_get service ''onlineprocessing'' (JObj [])) (\<lambda>online.
     seq (py_get online ''link'' JNull) (\<lambda>link.
       if truthy link then
         Inr [JStr ''\<newline>## Online Processing'',
              JStr (''[Process online]('' @ py_str link @ '')'')]
       else Inr []))"

definition appointment_lines :: "json \<Rightarrow> exn + json list" where
  "appointment_lines service =
     seq (py_get service ''appointment'' (JObj [])) (\<lambda>appointment.
     seq (py_get appointment ''link'' JNull) (\<lambda>link.
       if truthy link then
         Inr [JStr ''\<newline>## Appointment'',
              JStr (''[Book appointment]('' @ py_str link @ '')'')]
       else Inr []))"

definition authorities_lines :: "json \<Rightarrow> exn + json list" where
  "authorities_lines service =
     seq (py_get service ''authorities'' (JList [])) (\<lambda>authorities.
       if truthy authorities then
         seq (py_slice_to authorities 5) (\<lambda>first5.
         seq (py_iter first5) (\<lambda>auths.
         seq (name_bullet_loop auths) (\<lambda>ls.
         seq (py_len authorities) (\<lambda>n.
           Inr (JStr ''\<newline>## Responsible Authorities'' # ls @
                (if n > 5 then [JStr (''- ... and '' @ str_nat (n - 5) @ '' more'')]
                 else []))))))
       else Inr [])"

definition legal_lines :: "json \<Rightarrow> exn + json list" where
  "legal_lines service =
     seq (py_get service ''legal'' (JList [])) (\<lambda>legal.
       if truthy legal then
         seq (py_iter legal) (\<lambda>laws.
         seq (link_bullet_loop laws) (\<lambda>ls. Inr (JStr ''\<newline>## Legal Basis'' # ls)))
       else Inr [])"

definition format_lines :: "json \<Rightarrow> exn + json list" where
  "format_lines service =
     seq (header_lines service) (\<lambda>h.
     seq (requirements_lines service) (\<lambda>r.
     seq (prerequisites_lines service) (\<lambda>p.
     seq (forms_lines service) (\<lambda>f.
     seq (online_lines service) (\<lambda>on.
     seq (appointment_lines service) (\<lambda>ap.
     seq (authorities_lines service) (\<lambda>au.
     seq (legal_lines service) (\<lambda>le.
       Inr (h @ r @ p @ f @ on @ ap @ au @ le)))))))))"

definition format_service_details :: "json \<Rightarrow> exn + string" where
  "format_service_details service =
     seq (format_lines service) (\<lambda>lines. py_join ''\<newline>'' lines)"

section \<open>The tool dispatcher\<close>

datatype text_content = TextContent string

definition render_result :: "search_result \<Rightarrow> string" where
  "render_result r =
     ''**'' @ py_str (sr_name r) @ ''**\<newline>'' @
     ''ID: '' @ py_str (sr_id r) @ ''\<newline>'' @
     ''URL: '' @ py_str (sr_url r) @ ''\<newline>'' @
     ''Fees: '' @ py_str (sr_fees r) @ ''\<newline>'' @
     ''Description: '' @ py_str (sr_description r) @ ''\<newline>\<newline>''"

definition render_item :: "list_item \<Rightarrow> string" where
  "render_item s =
     ''- **'' @ py_str (li_name s) @ ''** (ID: '' @ py_str (li_id s) @ '')\<newline>'' @
     ''  '' @ py_str (li_url s) @ ''\<newline>''"

text \<open>\<^verbatim>\<open>min(v, 200)\<close>, as the index that the slice then reads: a boolean counts as 0 or 1.\<close>

fun clamp_limit :: "json \<Rightarrow> exn + int" where
  "clamp_limit (JInt n) = Inr (if 200 < n then 200 else n)"
| "clamp_limit (JBool b) = Inr (if b then 1 else 0)"
| "clamp_limit v =
     Inl (TypeError (sq @ ''<'' @ sq @ '' not supported between instances of '' @ sq @ ''int''
                     @ sq @ '' and '' @ sq @ type_name v @ sq))"

definition stats_text :: "json \<Rightarrow> exn + string" where
  "stats_text data =
     seq (py_get data ''datacount'' (JStr ''N/A'')) (\<lambda>datacount.
     seq (py_get data ''created'' (JStr ''N/A'')) (\<lambda>created.
     seq (py_get data ''locale'' (JStr ''N/A'')) (\<lambda>locale.
     seq (py_get data ''hash'' (JStr ''N/A'')) (\<lambda>hash.
     seq (py_get data ''error'' (JBool False)) (\<lambda>err.
     seq (py_get data ''datacount'' (JInt 0)) (\<lambda>total.
       Inr (''# Berlin Services Statistics\<newline>\<newline>'' @
            ''**Total Services:** '' @ py_str datacount @ ''\<newline>'' @
            ''**Last Updated:** '' @ py_str created @ ''\<newline>'' @
            ''**Locale:** '' @ py_str locale @ ''\<newline>'' @
            ''**Data Hash:** '' @ py_str hash @ ''\<newline>'' @
            ''**Error Status:** '' @ py_str err @ ''\<newline>\<newline>'' @
            ''The dataset contains information about '' @ py_str total @
            '' administrative services provided by Berlin authorities.\<newline>'')))))))"

text \<open>The body of the \<^verbatim>\<open>try\<close> block after the fetch: the text of the response, or the
  exception raised.\<close>

definition dispatch :: "json \<Rightarrow> string \<Rightarrow> json \<Rightarrow> exn + string" where
  "dispatch data name arguments =
     (if name = ''search_services'' then
        seq (py_get arguments ''query'' (JStr [])) (\<lambda>query.
          if \<not> truthy query then Inr ''Error: query parameter is required''
          else
            seq (search_services data query) (\<lambda>results.
              if results = [] then
                Inr (''No services found matching '' @ sq @ py_str query @ sq)
              else
                Inr (''Found '' @ str_nat (length results) @ '' service(s) matching '' @ sq
                     @ py_str query @ sq @ '':\<newline>\<newline>''
                     @ concat (map render_result results))))
      else if name = ''get_service_details'' then
        seq (py_get arguments ''service_id'' (JStr [])) (\<lambda>service_id.
          if \<not> truthy service_id then Inr ''Error: service_id parameter is required''
          else
            seq (get_service_by_id data service_id) (\<lambda>found.
              case found of
                None \<Rightarrow>
                  Inr (''Service with ID '' @ sq @ py_str service_id @ sq @ '' not found'')
              | Some service \<Rightarrow>
                  if \<not> truthy service then
                    Inr (''Service with ID '' @ sq @ py_str service_id @ sq @ '' not found'')
                  else format_service_details service))
      else if name = ''list_services'' then
        seq (py_get arguments ''limit'' (JInt 50)) (\<lambda>l.
        seq (clamp_limit l) (\<lambda>limit.
        seq (list_all_services data limit) (\<lambda>services.
        seq (py_get data ''datacount'' (JInt 0)) (\<lambda>total.
          Inr (''Berlin Administrative Services (showing '' @ str_nat (length services)
               @ '' of '' @ py_str total @ '' total):\<newline>\<newline>''
               @ concat (map render_item services))))))
      else if name = ''get_services_stats'' then stats_text data
      else Inr (''Unknown tool: '' @ name))"

text \<open>The handler \<^verbatim>\<open>except Exception as e\<close>: an exception it catches becomes a text; any
  other one leaves \<^verbatim>\<open>call_tool\<close> as it is.\<close>

definition handle_exception :: "exn \<Rightarrow> exn + text_content list" where
  "handle_exception e =
     (if is_exception e then Inr [TextContent (''Error: '' @ exn_str e)] else Inl e)"

text \<open>The rest of the \<^verbatim>\<open>try\<close> block once the fetch has ended, with its handler.\<close>

definition respond :: "exn + json \<Rightarrow> string \<Rightarrow> json \<Rightarrow> exn + text_content list" where
  "respond fetched name arguments =
     (case fetched of
        Inl e \<Rightarrow> handle_exception e
      | Inr data \<Rightarrow>
          (case dispatch data name arguments of
             Inl e \<Rightarrow> handle_exception e
           | Inr text \<Rightarrow> Inr [TextContent text]))"

text \<open>\<^verbatim>\<open>call_tool\<close>, run with nothing interleaved: the dataset is fetched first, inside the
  \<^verbatim>\<open>try\<close>. The result is the response, or the exception that \<^verbatim>\<open>call_tool\<close> raises.\<close>

definition call_tool ::
    "network \<Rightarrow> string \<Rightarrow> json \<Rightarrow> state \<Rightarrow> (exn + text_content list) \<times> state" where
  "call_tool net name arguments st =
     (case fetch_services_data net st of
        (fetched, st1) \<Rightarrow> (respond fetched name arguments, st1))"

subsection \<open>Invocations that interleave\<close>

text \<open>
  The event loop runs the invocations as tasks. A task that finds the cache empty sends its
  request and waits; other tasks run meanwhile; the task goes on when it is resumed with
  the reply. The process is the state and the tasks that wait, each with the number of its
  request, the name of its tool and its arguments.
\<close>

record process =
  proc_state :: state
  pending :: "(nat \<times> string \<times> json) list"

datatype event = Invoke string json | Resume nat

fun sched_step ::
    "network \<Rightarrow> event \<Rightarrow> process \<Rightarrow> (exn + text_content list) option \<times> process" where
  "sched_step net (Invoke name arguments) p =
     (case fetch_begin (proc_state p) of
        (Cached d, st1) \<Rightarrow> (Some (respond (Inr d) name arguments), p\<lparr>proc_state := st1\<rparr>)
      | (Pending i, st1) \<Rightarrow>
          (None, p\<lparr>proc_state := st1, pending := pending p @ [(i, name, arguments)]\<rparr>))"
| "sched_step net (Resume i) p =
     (case map_of (pending p) i of
        None \<Rightarrow> (None, p)
      | Some (name, arguments) \<Rightarrow>
          (case fetch_complete net i (proc_state p) of
             (fetched, st1) \<Rightarrow>
               (Some (respond fetched name arguments),
                p\<lparr>proc_state := st1, pending := filter (\<lambda>t. fst t \<noteq> i) (pending p)\<rparr>)))"

fun run ::
    "network \<Rightarrow> event list \<Rightarrow> process \<Rightarrow> (exn + text_content list) list \<times> process" where
  "run net [] p = ([], p)"
| "run net (ev # evs) p =
     (case sched_step net ev p of
        (out, p1) \<Rightarrow>
          (case run net evs p1 of
             (outs, p2) \<Rightarrow> ((case out of None \<Rightarrow> outs | Some r \<Rightarrow> r # outs), p2)))"

definition idle :: "state \<Rightarrow> process" where
  "idle st = \<lparr>proc_state = st, pending = []\<rparr>"

section \<open>Datasets and records as the data model describes them\<close>

text \<open>The value of a field, when the record is a dictionary that has the key.\<close>

fun field :: "json \<Rightarrow> string \<Rightarrow> json option" where
  "field (JObj kvs) k = map_of kvs k"
| "field v k = None"

text \<open>The value of a field, or the default when the record has no such key.\<close>

definition field_or :: "json \<Rightarrow> string \<Rightarrow> json \<Rightarrow> json" where
  "field_or r k d = (case field r k of None \<Rightarrow> d | Some v \<Rightarrow> v)"

fun is_record :: "json \<Rightarrow> bool" where
  "is_record (JObj kvs) = True"
| "is_record v = False"

text \<open>A field that holds a sequence: absent, it is the empty sequence.\<close>

fun list_field :: "json \<Rightarrow> string \<Rightarrow> json list option" where
  "list_field (JObj kvs) k =
     (case map_of kvs k of
        None \<Rightarrow> Some []
      | Some (JList xs) \<Rightarrow> Some xs
      | Some v \<Rightarrow> None)"
| "list_field v k = None"

definition dataset_records :: "json \<Rightarrow> json list option" where
  "dataset_records data = list_field data ''data''"

text \<open>A field is a string, or a dictionary, when the record has it.\<close>

definition str_or_absent :: "json \<Rightarrow> string \<Rightarrow> bool" where
  "str_or_absent r k = (case field r k of None \<Rightarrow> True | Some (JStr s) \<Rightarrow> True | Some v \<Rightarrow> False)"

definition obj_or_absent :: "json \<Rightarrow> string \<Rightarrow> bool" where
  "obj_or_absent r k = (case field r k of None \<Rightarrow> True | Some (JObj kvs) \<Rightarrow> True | Some v \<Rightarrow> False)"

text \<open>The identifier of a record as the lookup reads it: \<^verbatim>\<open>None\<close> when the record has none.\<close>

definition record_id :: "json \<Rightarrow> json" where
  "record_id r = field_or r ''id'' JNull"

definition id_matches :: "json \<Rightarrow> json \<Rightarrow> bool" where
  "id_matches service_id r = (py_str (record_id r) = py_str service_id)"

definition lookup_data :: json where
  "lookup_data = JObj [(''datacount'', JInt 2),
     (''data'', JList [JObj [(''id'', JInt 7), (''name'', JStr ''Anmeldung'')],
                       JObj [(''id'', JInt 42), (''name'', JStr ''Reisepass'')],
                       JObj [(''id'', JStr ''42''), (''name'', JStr ''Duplicate'')]])]"

text \<open>The text of a field that is a string; the empty text when the record has no such
  field.\<close>

definition text_of :: "json \<Rightarrow> string \<Rightarrow> string" where
  "text_of r k = (case field r k of Some (JStr s) \<Rightarrow> s | _ \<Rightarrow> [])"

definition meta_of :: "json \<Rightarrow> json" where
  "meta_of r = field_or r ''meta'' (JObj [])"

definition meta_url :: "json \<Rightarrow> json \<Rightarrow> json" where
  "meta_url r d = field_or (meta_of r) ''url'' d"

subsection \<open>What the listing and the search are expected to return\<close>



definition searchable :: "json \<Rightarrow> bool" where
  "searchable r = (is_record r \<and> str_or_absent r ''name'' \<and> str_or_absent r ''description''
     \<and> obj_or_absent r ''meta'')"

text \<open>Case-insensitive containment: the lowered query occurs in the lowered text.\<close>

definition contains_ci :: "string \<Rightarrow> string \<Rightarrow> bool" where
  "contains_ci q s = str_in (lower q) (lower s)"

definition matches :: "string \<Rightarrow> json \<Rightarrow> bool" where
  "matches q r = (contains_ci q (text_of r ''name'') \<or> contains_ci q (text_of r ''description''))"

definition ellipsized :: "string \<Rightarrow> string" where
  "ellipsized d = (if length d > 200 then take 200 d @ ''...'' else d)"

definition search_result_of :: "json \<Rightarrow> search_result" where
  "search_result_of r =
     \<lparr>sr_id = field_or r ''id'' JNull, sr_name = field_or r ''name'' JNull,
      sr_description = JStr (ellipsized (text_of r ''description'')),
      sr_url = meta_url r (JStr []), sr_fees = field_or r ''fees'' (JStr [])\<rparr>"

text \<open>The truncation law between a record and its search result.\<close>

definition truncation_law :: "json \<Rightarrow> search_result \<Rightarrow> bool" where
  "truncation_law r x =
     (let d = text_of r ''description'' in
      if length d > 200
      then sr_description x = JStr (take 200 d @ ''...'') \<and> length (take 200 d @ ''...'') = 203
           \<and> prefix (take 200 d) d
      else sr_description x = JStr d)"

subsection \<open>Example datasets\<close>

definition long_description :: string where
  "long_description = replicate 200 (CHR ''a'') @ ''zebra''"

definition long_data :: json where
  "long_data = JObj [(''data'', JList [JObj [(''id'', JInt 1), (''name'', JStr ''x''),
                                           (''description'', JStr long_description)]])]"

definition two_records :: "json list" where
  "two_records = [JObj [(''id'', JInt 7), (''name'', JStr ''Anmeldung''),
                        (''description'', JStr ''Register your address''),
                        (''meta'', JObj [(''url'', JStr ''https://service.berlin.de/7'')])],
                  JObj [(''id'', JInt 8), (''name'', JStr ''Reisepass'')]]"

definition two_data :: json where
  "two_data = JObj [(''datacount'', JInt 2), (''data'', JList two_records)]"



definition long_record :: json where
  "long_record = JObj [(''id'', JInt 1), (''name'', JStr ''x''),
                       (''description'', JStr long_description)]"

definition long_result :: search_result where
  "long_result = \<lparr>sr_id = JInt 1, sr_name = JStr ''x'',
                    sr_description = JStr (replicate 200 (CHR ''a'') @ ''...''),
                    sr_url = JStr [], sr_fees = JStr []\<rparr>"

definition result7 :: search_result where
  "result7 = \<lparr>sr_id = JInt 7, sr_name = JStr ''Anmeldung'',
                sr_description = JStr ''Register your address'',
                sr_url = JStr ''https://service.berlin.de/7'', sr_fees = JStr []\<rparr>"

subsection \<open>Example networks and states\<close>

definition failing_net :: network where
  "failing_net = (\<lambda>n. Inl (LibraryError ''All connection attempts failed''))"

definition good_net :: network where
  "good_net = (\<lambda>n. Inr (Response None (Inr two_data)))"



definition flaky_net :: network where
  "flaky_net = (\<lambda>n. if n = 0 then Inl (LibraryError ''All connection attempts failed'')
                      else Inr (Response None (Inr two_data)))"

definition null_net :: network where
  "null_net = (\<lambda>n. Inr (Response None (Inr JNull)))"

definition cancelled_net :: network where
  "cancelled_net = (\<lambda>n. Inl (CancelledError []))"

text \<open>The first request is answered with one dataset, every later one with another.\<close>

definition changing_net :: network where
  "changing_net = (\<lambda>n. Inr (Response None (Inr (if n = 0 then two_data else lookup_data))))"




definition loaded_state :: state where
  "loaded_state = \<lparr>services_cache = two_data, requests = 1\<rparr>"

definition failed_state :: state where
  "failed_state = \<lparr>services_cache = JNull, requests = 1\<rparr>"

subsection \<open>The document the formatter is expected to write\<close>

text \<open>A field as the document shows it: the placeholder when the record has no such field.\<close>

definition shown :: "json \<Rightarrow> string \<Rightarrow> string" where
  "shown r k = (case field r k of None \<Rightarrow> ''N/A'' | Some v \<Rightarrow> py_str v)"

definition entries :: "json \<Rightarrow> string \<Rightarrow> json list" where
  "entries r k = (case list_field r k of None \<Rightarrow> [] | Some xs \<Rightarrow> xs)"

definition entries_ok :: "json \<Rightarrow> string \<Rightarrow> bool" where
  "entries_ok r k = (case list_field r k of None \<Rightarrow> False | Some xs \<Rightarrow> list_all is_record xs)"

definition requirement_ok :: "json \<Rightarrow> bool" where
  "requirement_ok x = (is_record x \<and> str_or_absent x ''description'')"

text \<open>A service record whose fields, when it has them, have the types of the data model.\<close>

definition well_typed_service :: "json \<Rightarrow> bool" where
  "well_typed_service r =
     (is_record r \<and> str_or_absent r ''description'' \<and> str_or_absent r ''fees''
      \<and> str_or_absent r ''process_time'' \<and> obj_or_absent r ''meta''
      \<and> obj_or_absent r ''onlineprocessing'' \<and> obj_or_absent r ''appointment''
      \<and> entries_ok r ''requirements'' \<and> list_all requirement_ok (entries r ''requirements'')
      \<and> entries_ok r ''prerequisites'' \<and> entries_ok r ''forms''
      \<and> entries_ok r ''authorities'' \<and> entries_ok r ''legal'')"

definition doc_header :: "json \<Rightarrow> string list" where
  "doc_header r =
     [''# '' @ shown r ''name'',
      ''\<newline>**ID:** '' @ shown r ''id'',
      ''**URL:** '' @ shown (meta_of r) ''url'',
      ''\<newline>## Description'',
      shown r ''description'',
      ''\<newline>## Fees'',
      shown r ''fees'',
      ''\<newline>## Process Time'',
      shown r ''process_time'']"

definition doc_requirement :: "json \<Rightarrow> string list" where
  "doc_requirement x = [''\<newline>### '' @ shown x ''name'', text_of x ''description'']"

definition doc_requirements :: "json \<Rightarrow> string list" where
  "doc_requirements r =
     (if entries r ''requirements'' = [] then []
      else ''\<newline>## Requirements'' # concat (map doc_requirement (entries r ''requirements'')))"

definition doc_name_bullet :: "json \<Rightarrow> string" where
  "doc_name_bullet x = ''- '' @ shown x ''name''"

definition section_shown :: "json list \<Rightarrow> bool" where
  "section_shown ps = (ps \<noteq> [] \<and> field (hd ps) ''name'' \<noteq> Some (JStr ''keine''))"

definition doc_prerequisites :: "json list \<Rightarrow> string list" where
  "doc_prerequisites ps =
     (if section_shown ps then ''\<newline>## Prerequisites'' # map doc_name_bullet ps else [])"

definition doc_link_bullet :: "json \<Rightarrow> string" where
  "doc_link_bullet x =
     (if truthy (field_or x ''link'' (JStr []))
      then ''- ['' @ shown x ''name'' @ '']('' @ py_str (field_or x ''link'' (JStr [])) @ '')''
      else ''- '' @ shown x ''name'')"

definition doc_links :: "string \<Rightarrow> json list \<Rightarrow> string list" where
  "doc_links title xs = (if xs = [] then [] else title # map doc_link_bullet xs)"

definition doc_link_section :: "string \<Rightarrow> string \<Rightarrow> json \<Rightarrow> string list" where
  "doc_link_section title label x =
     (if truthy (field_or x ''link'' JNull)
      then [title, ''['' @ label @ '']('' @ py_str (field_or x ''link'' JNull) @ '')'']
      else [])"

definition doc_authorities :: "json list \<Rightarrow> string list" where
  "doc_authorities auths =
     (if auths = [] then []
      else ''\<newline>## Responsible Authorities'' # map doc_name_bullet (take 5 auths)
           @ (if length auths > 5 then [''- ... and '' @ str_nat (length auths - 5) @ '' more'']
              else []))"

definition document_lines :: "json \<Rightarrow> string list" where
  "document_lines r =
     doc_header r @ doc_requirements r @ doc_prerequisites (entries r ''prerequisites'')
     @ doc_links ''\<newline>## Forms'' (entries r ''forms'')
     @ doc_link_section ''\<newline>## Online Processing'' ''Process online''
         (field_or r ''onlineprocessing'' (JObj []))
     @ doc_link_section ''\<newline>## Appointment'' ''Book appointment''
         (field_or r ''appointment'' (JObj []))
     @ doc_authorities (entries r ''authorities'')
     @ doc_links ''\<newline>## Legal Basis'' (entries r ''legal'')"

subsection \<open>Example service records\<close>

definition keine_service :: json where
  "keine_service = JObj [(''name'', JStr ''Anmeldung''),
                         (''prerequisites'', JList [JObj [(''name'', JStr ''keine'')]])]"

definition ausweis_service :: json where
  "ausweis_service = JObj [(''name'', JStr ''Anmeldung''),
                           (''prerequisites'', JList [JObj [(''name'', JStr ''Ausweis'')]])]"

definition keine_first_service :: json where
  "keine_first_service = JObj [(''name'', JStr ''Anmeldung''),
     (''prerequisites'', JList [JObj [(''name'', JStr ''keine'')],
                                JObj [(''name'', JStr ''Ausweis'')]])]"

definition bare_service :: json where
  "bare_service = JObj [(''requirements'', JList [JObj []]),
                        (''prerequisites'', JList [JObj []]),
                        (''forms'', JList [JObj []]),
                        (''authorities'', JList [JObj []]),
                        (''legal'', JList [JObj []])]"

definition foto_service :: json where
  "foto_service = JObj [(''name'', JStr ''Reisepass''),
                        (''requirements'', JList [JObj [(''name'', JStr ''Foto'')]])]"

definition null_fees_service :: json where
  "null_fees_service = JObj [(''name'', JStr ''Anmeldung''), (''fees'', JNull)]"

definition null_name_data :: json where
  "null_name_data = JObj [(''data'', JList [JObj [(''id'', JInt 1), (''name'', JNull)]])]"

text \<open>A result that raises, if it does, an exception that \<^verbatim>\<open>except Exception\<close> catches.\<close>

definition catchable :: "exn + 'a \<Rightarrow> bool" where
  "catchable r = (case r of Inl e \<Rightarrow> is_exception e | Inr x \<Rightarrow> True)"

definition racing_state :: state where
  "racing_state = \<lparr>services_cache = JNull, requests = 2\<rparr>"

section \<open>Basic facts\<close>

lemma seq_Inl [simp]: "seq (Inl e) f = Inl e"
  by (simp add: seq_def)

lemma seq_Inr [simp]: "seq (Inr x) f = f x"
  by (simp add: seq_def)

lemma py_get_record: "is_record r \<Longrightarrow> py_get r k d = Inr (field_or r k d)"
  by (cases r) (simp_all add: field_or_def split: option.splits)

lemma list_field_get:
  "list_field data k = Some rs \<Longrightarrow> py_get data k (JList []) = Inr (JList rs)"
  by (cases data) (auto split: option.splits json.splits)

section \<open>Lookup by identifier\<close>

lemma get_service_loop_find:
  "\<forall>r\<in>set rs. is_record r \<Longrightarrow>
     get_service_loop rs service_id = Inr (find (id_matches service_id) rs)"
proof (induction rs)
  case Nil
  show ?case by simp
next
  case (Cons r rs)
  from Cons.prems have rec: "is_record r" by simp
  from Cons.prems have rest: "\<forall>x\<in>set rs. is_record x" by simp
  have "py_get r ''id'' JNull = Inr (record_id r)"
    using py_get_record [OF rec] by (simp add: record_id_def)
  then show ?case
    using Cons.IH [OF rest] by (simp add: id_matches_def)
qed

text \<open>
  C6. On a dataset whose \<open>data\<close> is a sequence of records, the lookup turns the supplied
  identifier and each record's \<open>id\<close> into their string forms and returns the first record,
  in dataset order, for which the two are equal; the string \<open>42\<close> matches the numeric
  identifier 42; when no record matches, the result is the absent value and no exception.
\<close>

theorem get_service_by_id_first_match:
  assumes "dataset_records data = Some rs"
    and "\<forall>r\<in>set rs. is_record r"
  shows "get_service_by_id data service_id = Inr (find (id_matches service_id) rs)
    \<and> id_matches (JStr ''42'') (JObj [(''id'', JInt 42)])
    \<and> ((\<forall>r\<in>set rs. \<not> id_matches service_id r)
         \<longrightarrow> get_service_by_id data service_id = Inr None)"
proof -
  have d: "py_get data ''data'' (JList []) = Inr (JList rs)"
    using assms(1) by (simp add: dataset_records_def list_field_get)
  have main: "get_service_by_id data service_id = Inr (find (id_matches service_id) rs)"
    using get_service_loop_find [OF assms(2)] by (simp add: get_service_by_id_def d)
  have coerce: "id_matches (JStr ''42'') (JObj [(''id'', JInt 42)])"
    by code_simp
  have none: "(\<forall>r\<in>set rs. \<not> id_matches service_id r)
      \<longrightarrow> get_service_by_id data service_id = Inr None"
    using main by (simp add: find_None_iff)
  from main coerce none show ?thesis by blast
qed

theorem get_service_by_id_first_match_witness:
  "dataset_records lookup_data = Some
      [JObj [(''id'', JInt 7), (''name'', JStr ''Anmeldung'')],
       JObj [(''id'', JInt 42), (''name'', JStr ''Reisepass'')],
       JObj [(''id'', JStr ''42''), (''name'', JStr ''Duplicate'')]]
   \<and> get_service_by_id lookup_data (JStr ''42'')
       = Inr (Some (JObj [(''id'', JInt 42), (''name'', JStr ''Reisepass'')]))
   \<and> get_service_by_id lookup_data (JStr ''999'') = Inr None"
proof -
  let ?rs = "[JObj [(''id'', JInt 7), (''name'', JStr ''Anmeldung'')],
       JObj [(''id'', JInt 42), (''name'', JStr ''Reisepass'')],
       JObj [(''id'', JStr ''42''), (''name'', JStr ''Duplicate'')]]"
  have recs: "dataset_records lookup_data = Some ?rs"
    by (simp add: dataset_records_def lookup_data_def)
  have ok: "\<forall>r\<in>set ?rs. is_record r" by simp
  have a: "get_service_by_id lookup_data (JStr ''42'') = Inr (find (id_matches (JStr ''42'')) ?rs)"
    using get_service_by_id_first_match [OF recs ok, of "JStr ''42''"] by blast
  have b: "get_service_by_id lookup_data (JStr ''999'') = Inr (find (id_matches (JStr ''999'')) ?rs)"
    using get_service_by_id_first_match [OF recs ok, of "JStr ''999''"] by blast
  have fa: "find (id_matches (JStr ''42'')) ?rs
      = Some (JObj [(''id'', JInt 42), (''name'', JStr ''Reisepass'')])"
    by code_simp
  have fb: "find (id_matches (JStr ''999'')) ?rs = None"
    by code_simp
  from recs a b fa fb show ?thesis by simp
qed

section \<open>Listing\<close>

lemma meta_of_record: "obj_or_absent r ''meta'' \<Longrightarrow> is_record (meta_of r)"
  by (auto simp: obj_or_absent_def meta_of_def field_or_def split: option.splits json.splits)

lemma py_get_meta_url:
  "obj_or_absent r ''meta'' \<Longrightarrow>
     py_get (field_or r ''meta'' (JObj [])) ''url'' d = Inr (meta_url r d)"
  using py_get_record [of "meta_of r"] meta_of_record [of r]
  by (simp add: meta_url_def meta_of_def)







lemma two_data_records: "dataset_records two_data = Some two_records"
  by (simp add: dataset_records_def two_data_def)







section \<open>Search\<close>



lemma py_lower_text:
  "str_or_absent r k \<Longrightarrow> py_lower (field_or r k (JStr [])) = Inr (lower (text_of r k))"
  by (auto simp: str_or_absent_def field_or_def text_of_def lower_def
      split: option.splits json.splits)

lemma truncated_text:
  "str_or_absent r k \<Longrightarrow> truncated (field_or r k (JStr [])) = JStr (ellipsized (text_of r k))"
  by (auto simp: str_or_absent_def field_or_def text_of_def ellipsized_def
      split: option.splits json.splits)

lemma search_body_searchable:
  "searchable r \<Longrightarrow>
     search_body (lower q) r = Inr (if matches q r then Some (search_result_of r) else None)"
  by (simp add: searchable_def search_body_def py_get_record py_lower_text truncated_text
      py_get_meta_url matches_def contains_ci_def search_result_of_def)

lemma search_loop_filter:
  "\<forall>r\<in>set rs. searchable r \<Longrightarrow>
     search_loop (lower q) rs = Inr (map search_result_of (filter (matches q) rs))"
  by (induction rs) (simp_all add: search_body_searchable)

lemma search_services_filter:
  assumes "dataset_records data = Some rs" and "\<forall>r\<in>set rs. searchable r"
  shows "search_services data (JStr q) = Inr (map search_result_of (filter (matches q) rs))"
proof -
  have d: "py_get data ''data'' (JList []) = Inr (JList rs)"
    using assms(1) by (simp add: dataset_records_def list_field_get)
  show ?thesis
    by (simp add: search_services_def d search_loop_filter [OF assms(2)])
qed


lemma truncation_law_result: "truncation_law r (search_result_of r)"
  by (simp add: truncation_law_def search_result_of_def ellipsized_def Let_def take_is_prefix)

text \<open>
  C2 (amended). For every record the search returns: when the record's description is longer
  than 200 characters, the returned description is its first 200 characters followed by the
  three-character ellipsis, so it has length 203 and its first 200 characters are a prefix of
  the original; otherwise the returned description is the original.
\<close>

theorem search_services_truncation:
  assumes "dataset_records data = Some rs" and "\<forall>r\<in>set rs. searchable r"
  shows "\<exists>out. search_services data (JStr q) = Inr out
           \<and> list_all2 truncation_law (filter (matches q) rs) out"
proof -
  have "list_all2 truncation_law (filter (matches q) rs)
          (map search_result_of (filter (matches q) rs))"
    by (simp add: list_all2_map2 list_all2_same truncation_law_result)
  then show ?thesis
    using search_services_filter [OF assms] by blast
qed

lemma two_records_searchable: "\<forall>r\<in>set two_records. searchable r"
  by (simp add: two_records_def searchable_def str_or_absent_def obj_or_absent_def)

lemma long_data_records: "dataset_records long_data = Some [long_record]"
  by (simp add: dataset_records_def long_data_def long_record_def)

lemma long_record_searchable: "searchable long_record"
  by (simp add: long_record_def searchable_def str_or_absent_def obj_or_absent_def)



theorem search_services_truncation_witness:
  "dataset_records long_data = Some [long_record]
   \<and> searchable long_record
   \<and> length (text_of long_record ''description'') = 205
   \<and> search_services long_data (JStr ''zebra'') = Inr [long_result]
   \<and> truncation_law long_record long_result
   \<and> search_services two_data (JStr ''anmeld'') = Inr [result7]
   \<and> truncation_law (two_records ! 0) result7"
proof -
  have ok: "\<forall>r\<in>set [long_record]. searchable r"
    using long_record_searchable by simp
  obtain out where o: "search_services long_data (JStr ''zebra'') = Inr out"
    and l: "list_all2 truncation_law (filter (matches ''zebra'') [long_record]) out"
    using search_services_truncation [OF long_data_records ok, of "''zebra''"] by blast
  obtain out2 where o2: "search_services two_data (JStr ''anmeld'') = Inr out2"
    and l2: "list_all2 truncation_law (filter (matches ''anmeld'') two_records) out2"
    using search_services_truncation [OF two_data_records two_records_searchable, of "''anmeld''"]
    by blast
  have e: "search_services long_data (JStr ''zebra'') = Inr [long_result]"
    by code_simp
  have e2: "search_services two_data (JStr ''anmeld'') = Inr [result7]"
    by code_simp
  have m: "filter (matches ''zebra'') [long_record] = [long_record]"
    by code_simp
  have m2: "filter (matches ''anmeld'') two_records = [two_records ! 0]"
    by code_simp
  have len: "length (text_of long_record ''description'') = 205"
    by code_simp
  from o e have "out = [long_result]" by simp
  with l m have t1: "truncation_law long_record long_result" by simp
  from o2 e2 have "out2 = [result7]" by simp
  with l2 m2 have t2: "truncation_law (two_records ! 0) result7" by simp
  from long_data_records long_record_searchable len e t1 e2 t2 show ?thesis by simp
qed

text \<open>The returned description of a description of 205 characters ends with the ellipsis,
  and is no prefix of the original.\<close>

theorem truncation_prefix_counterexample:
  "search_services long_data (JStr ''zebra'') = Inr [long_result]
   \<and> text_of long_record ''description'' = long_description
   \<and> length long_description = 205
   \<and> sr_description long_result = JStr (replicate 200 (CHR ''a'') @ ''...'')
   \<and> \<not> prefix (replicate 200 (CHR ''a'') @ ''...'') long_description"
  by code_simp

section \<open>The formatter and the document it writes\<close>

lemma obj_field_record: "obj_or_absent r k \<Longrightarrow> is_record (field_or r k (JObj []))"
  by (auto simp: obj_or_absent_def field_or_def split: option.splits json.splits)

lemma str_field_shown:
  "str_or_absent r k \<Longrightarrow> field_or r k (JStr ''N/A'') = JStr (shown r k)"
  by (auto simp: str_or_absent_def field_or_def shown_def split: option.splits json.splits)

lemma str_field_text:
  "str_or_absent r k \<Longrightarrow> field_or r k (JStr []) = JStr (text_of r k)"
  by (auto simp: str_or_absent_def field_or_def text_of_def split: option.splits json.splits)

lemma py_str_shown: "py_str (field_or r k (JStr ''N/A'')) = shown r k"
  by (simp add: field_or_def shown_def split: option.splits)

lemma entries_get:
  "entries_ok r k \<Longrightarrow> py_get r k (JList []) = Inr (JList (entries r k))"
  by (auto simp: entries_ok_def entries_def list_field_get split: option.splits)

lemma entries_records: "entries_ok r k \<Longrightarrow> list_all is_record (entries r k)"
  by (auto simp: entries_ok_def entries_def split: option.splits)

lemma header_lines_doc:
  assumes "is_record r" and "obj_or_absent r ''meta''" and "str_or_absent r ''description''"
    and "str_or_absent r ''fees''" and "str_or_absent r ''process_time''"
  shows "header_lines r = Inr (map JStr (doc_header r))"
proof -
  have m: "py_get (field_or r ''meta'' (JObj [])) ''url'' (JStr ''N/A'')
             = Inr (field_or (meta_of r) ''url'' (JStr ''N/A''))"
    using py_get_record [OF obj_field_record [OF assms(2)]] by (simp add: meta_of_def)
  show ?thesis
    using assms(1)
    by (simp add: header_lines_def py_get_record m py_str_shown doc_header_def
        str_field_shown [OF assms(3)] str_field_shown [OF assms(4)] str_field_shown [OF assms(5)])
qed

lemma requirement_loop_doc:
  "list_all requirement_ok xs \<Longrightarrow>
     requirement_loop xs = Inr (map JStr (concat (map doc_requirement xs)))"
  by (induction xs)
     (simp_all add: requirement_ok_def py_get_record py_str_shown str_field_text
        doc_requirement_def)

lemma name_bullet_loop_doc:
  "list_all is_record xs \<Longrightarrow> name_bullet_loop xs = Inr (map JStr (map doc_name_bullet xs))"
  by (induction xs) (simp_all add: py_get_record py_str_shown doc_name_bullet_def)

lemma link_bullet_loop_doc:
  "list_all is_record xs \<Longrightarrow> link_bullet_loop xs = Inr (map JStr (map doc_link_bullet xs))"
  by (induction xs) (simp_all add: py_get_record py_str_shown doc_link_bullet_def)

lemma requirements_lines_doc:
  assumes "entries_ok r ''requirements''" and "list_all requirement_ok (entries r ''requirements'')"
  shows "requirements_lines r = Inr (map JStr (doc_requirements r))"
  by (simp add: requirements_lines_def entries_get [OF assms(1)]
      requirement_loop_doc [OF assms(2)] doc_requirements_def)

lemma first_name_keine:
  "is_record p \<Longrightarrow>
     (field_or p ''name'' JNull \<noteq> JStr ''keine'') = (field p ''name'' \<noteq> Some (JStr ''keine''))"
  by (auto simp: field_or_def split: option.splits)

lemma prerequisites_lines_list:
  assumes "py_get r ''prerequisites'' (JList []) = Inr (JList ps)" and "list_all is_record ps"
  shows "prerequisites_lines r = Inr (map JStr (doc_prerequisites ps))"
proof (cases ps)
  case Nil
  then show ?thesis
    using assms(1) by (simp add: prerequisites_lines_def doc_prerequisites_def section_shown_def)
next
  case (Cons p rest)
  with assms(2) have p: "is_record p" by simp
  show ?thesis
    using assms(1) Cons name_bullet_loop_doc [OF assms(2)]
    by (simp add: prerequisites_lines_def doc_prerequisites_def section_shown_def
        py_get_record [OF p] first_name_keine [OF p])
qed

lemma prerequisites_lines_doc:
  assumes "entries_ok r ''prerequisites''"
  shows "prerequisites_lines r = Inr (map JStr (doc_prerequisites (entries r ''prerequisites'')))"
  using prerequisites_lines_list [OF entries_get [OF assms] entries_records [OF assms]] .

lemma forms_lines_doc:
  assumes "entries_ok r ''forms''"
  shows "forms_lines r = Inr (map JStr (doc_links ''\<newline>## Forms'' (entries r ''forms'')))"
  by (simp add: forms_lines_def entries_get [OF assms]
      link_bullet_loop_doc [OF entries_records [OF assms]] doc_links_def)

lemma legal_lines_doc:
  assumes "entries_ok r ''legal''"
  shows "legal_lines r = Inr (map JStr (doc_links ''\<newline>## Legal Basis'' (entries r ''legal'')))"
  by (simp add: legal_lines_def entries_get [OF assms]
      link_bullet_loop_doc [OF entries_records [OF assms]] doc_links_def)

lemma online_lines_doc:
  assumes "is_record r" and "obj_or_absent r ''onlineprocessing''"
  shows "online_lines r = Inr (map JStr (doc_link_section ''\<newline>## Online Processing''
           ''Process online'' (field_or r ''onlineprocessing'' (JObj []))))"
  using assms(1) py_get_record [OF obj_field_record [OF assms(2)]]
  by (simp add: online_lines_def py_get_record doc_link_section_def)

lemma appointment_lines_doc:
  assumes "is_record r" and "obj_or_absent r ''appointment''"
  shows "appointment_lines r = Inr (map JStr (doc_link_section ''\<newline>## Appointment''
           ''Book appointment'' (field_or r ''appointment'' (JObj []))))"
  using assms(1) py_get_record [OF obj_field_record [OF assms(2)]]
  by (simp add: appointment_lines_def py_get_record doc_link_section_def)

lemma authorities_lines_doc:
  assumes "entries_ok r ''authorities''"
  shows "authorities_lines r = Inr (map JStr (doc_authorities (entries r ''authorities'')))"
proof -
  have t: "list_all is_record (take 5 (entries r ''authorities''))"
    using entries_records [OF assms] by (auto simp: list_all_iff dest: in_set_takeD)
  show ?thesis
    by (simp add: authorities_lines_def entries_get [OF assms] slice_stop_def
        name_bullet_loop_doc [OF t] doc_authorities_def)
qed

lemma format_lines_doc:
  assumes "well_typed_service r"
  shows "format_lines r = Inr (map JStr (document_lines r))"
  using assms
  by (simp add: well_typed_service_def format_lines_def header_lines_doc requirements_lines_doc
      prerequisites_lines_doc forms_lines_doc online_lines_doc appointment_lines_doc
      authorities_lines_doc legal_lines_doc document_lines_def)

lemma join_items_strings: "join_items i (map JStr ss) = Inr ss"
  by (induction ss arbitrary: i) simp_all

lemma format_service_details_doc:
  assumes "well_typed_service r"
  shows "format_service_details r = Inr (join ''\<newline>'' (document_lines r))"
  by (simp add: format_service_details_def format_lines_doc [OF assms] py_join_def
      join_items_strings)

lemma seq_Inr_iff: "seq m f = Inr y \<longleftrightarrow> (\<exists>x. m = Inr x \<and> f x = Inr y)"
  by (cases m) simp_all

lemma format_lines_blocks:
  assumes "format_lines r = Inr ls"
  shows "\<exists>h rq p rest. header_lines r = Inr h \<and> requirements_lines r = Inr rq
           \<and> prerequisites_lines r = Inr p \<and> ls = h @ rq @ p @ rest"
  using assms by (auto simp: format_lines_def seq_Inr_iff)

text \<open>
  C3 (amended). For a service record whose \<open>prerequisites\<close> is a sequence of dictionaries (or
  is absent), the formatter writes a Prerequisites section if and only if the sequence is
  not empty and the name of its first entry is not \<open>keine\<close>; the section is the title
  followed by one bullet per prerequisite, with its name. So the list with the single entry
  \<open>keine\<close> writes no section, and the list with the single entry \<open>Ausweis\<close> writes the title
  and the bullet \<open>- Ausweis\<close>. The block stands in the document after the header and the
  requirements.
\<close>

theorem prerequisites_section_rule:
  assumes "list_field service ''prerequisites'' = Some ps" and "\<forall>p\<in>set ps. is_record p"
  shows "prerequisites_lines service =
           Inr (if ps \<noteq> [] \<and> field (hd ps) ''name'' \<noteq> Some (JStr ''keine'')
                then JStr ''\<newline>## Prerequisites'' # map (\<lambda>p. JStr (''- '' @ shown p ''name'')) ps
                else [])
    \<and> (ps = [JObj [(''name'', JStr ''keine'')]] \<longrightarrow> prerequisites_lines service = Inr [])
    \<and> (ps = [JObj [(''name'', JStr ''Ausweis'')]] \<longrightarrow>
          prerequisites_lines service = Inr [JStr ''\<newline>## Prerequisites'', JStr ''- Ausweis''])
    \<and> (\<forall>ls. format_lines service = Inr ls \<longrightarrow>
          (\<exists>h rq p rest. header_lines service = Inr h \<and> requirements_lines service = Inr rq
             \<and> prerequisites_lines service = Inr p \<and> ls = h @ rq @ p @ rest))"
proof -
  have recs: "list_all is_record ps"
    using assms(2) by (simp add: list_all_iff)
  have eq: "prerequisites_lines service = Inr (map JStr (doc_prerequisites ps))"
    using prerequisites_lines_list [OF list_field_get [OF assms(1)] recs] .
  have a: "prerequisites_lines service =
           Inr (if ps \<noteq> [] \<and> field (hd ps) ''name'' \<noteq> Some (JStr ''keine'')
                then JStr ''\<newline>## Prerequisites'' # map (\<lambda>p. JStr (''- '' @ shown p ''name'')) ps
                else [])"
    by (simp add: eq doc_prerequisites_def section_shown_def doc_name_bullet_def comp_def)
  have b: "ps = [JObj [(''name'', JStr ''keine'')]] \<longrightarrow> prerequisites_lines service = Inr []"
    by (simp add: a)
  have c: "ps = [JObj [(''name'', JStr ''Ausweis'')]] \<longrightarrow>
          prerequisites_lines service = Inr [JStr ''\<newline>## Prerequisites'', JStr ''- Ausweis'']"
    by (simp add: a shown_def)
  have d: "\<forall>ls. format_lines service = Inr ls \<longrightarrow>
          (\<exists>h rq p rest. header_lines service = Inr h \<and> requirements_lines service = Inr rq
             \<and> prerequisites_lines service = Inr p \<and> ls = h @ rq @ p @ rest)"
    using format_lines_blocks by blast
  from a b c d show ?thesis by blast
qed

theorem prerequisites_section_rule_witness:
  "list_field keine_service ''prerequisites'' = Some [JObj [(''name'', JStr ''keine'')]]
   \<and> prerequisites_lines keine_service = Inr []
   \<and> list_field ausweis_service ''prerequisites'' = Some [JObj [(''name'', JStr ''Ausweis'')]]
   \<and> prerequisites_lines ausweis_service
       = Inr [JStr ''\<newline>## Prerequisites'', JStr ''- Ausweis'']
   \<and> format_lines ausweis_service
       = Inr [JStr ''# Anmeldung'', JStr ''\<newline>**ID:** N/A'', JStr ''**URL:** N/A'',
              JStr ''\<newline>## Description'', JStr ''N/A'', JStr ''\<newline>## Fees'', JStr ''N/A'',
              JStr ''\<newline>## Process Time'', JStr ''N/A'',
              JStr ''\<newline>## Prerequisites'', JStr ''- Ausweis'']"
proof -
  have k: "list_field keine_service ''prerequisites'' = Some [JObj [(''name'', JStr ''keine'')]]"
    by (simp add: keine_service_def)
  have a: "list_field ausweis_service ''prerequisites'' = Some [JObj [(''name'', JStr ''Ausweis'')]]"
    by (simp add: ausweis_service_def)
  have k1: "prerequisites_lines keine_service = Inr []"
    using prerequisites_section_rule [OF k] by simp
  have a1: "prerequisites_lines ausweis_service
       = Inr [JStr ''\<newline>## Prerequisites'', JStr ''- Ausweis'']"
    using prerequisites_section_rule [OF a] by (simp add: shown_def)
  have f: "format_lines ausweis_service
       = Inr [JStr ''# Anmeldung'', JStr ''\<newline>**ID:** N/A'', JStr ''**URL:** N/A'',
              JStr ''\<newline>## Description'', JStr ''N/A'', JStr ''\<newline>## Fees'', JStr ''N/A'',
              JStr ''\<newline>## Process Time'', JStr ''N/A'',
              JStr ''\<newline>## Prerequisites'', JStr ''- Ausweis'']"
    by code_simp
  from k a k1 a1 f show ?thesis by simp
qed

text \<open>The prerequisites \<open>keine\<close>, \<open>Ausweis\<close> are not empty and are not the single-entry list of
  the sentinel, and the formatter writes no Prerequisites section.\<close>

theorem keine_first_counterexample:
  "list_field keine_first_service ''prerequisites''
     = Some [JObj [(''name'', JStr ''keine'')], JObj [(''name'', JStr ''Ausweis'')]]
   \<and> [JObj [(''name'', JStr ''keine'')], JObj [(''name'', JStr ''Ausweis'')]] \<noteq> []
   \<and> [JObj [(''name'', JStr ''keine'')], JObj [(''name'', JStr ''Ausweis'')]]
       \<noteq> [JObj [(''name'', JStr ''keine'')]]
   \<and> prerequisites_lines keine_first_service = Inr []
   \<and> format_service_details keine_first_service
       = Inr ''# Anmeldung\<newline>\<newline>**ID:** N/A\<newline>**URL:** N/A\<newline>\<newline>## Description\<newline>N/A\<newline>\<newline>## Fees\<newline>N/A\<newline>\<newline>## Process Time\<newline>N/A''"
  by code_simp

text \<open>
  C8 (amended). On a service record whose fields, when present, have the types of the data
  model, the formatter returns a string and raises nothing, whichever fields are absent: the
  string is the lines of the document joined by newlines. In the document an absent name,
  id, url (or \<open>meta\<close>), description, fees or process time is written as \<open>N/A\<close>, and so is the
  absent name of a requirement, a prerequisite, a form, an authority or a legal reference.
  The absent description of a requirement is written as an empty line.
\<close>

theorem format_service_details_total:
  assumes "well_typed_service service"
  shows "format_service_details service = Inr (join ''\<newline>'' (document_lines service))
    \<and> (field service ''name'' = None \<longrightarrow> document_lines service ! 0 = ''# N/A'')
    \<and> (field service ''id'' = None \<longrightarrow> document_lines service ! 1 = ''\<newline>**ID:** N/A'')
    \<and> (field (meta_of service) ''url'' = None \<longrightarrow> document_lines service ! 2 = ''**URL:** N/A'')
    \<and> (field service ''description'' = None \<longrightarrow> document_lines service ! 4 = ''N/A'')
    \<and> (field service ''fees'' = None \<longrightarrow> document_lines service ! 6 = ''N/A'')
    \<and> (field service ''process_time'' = None \<longrightarrow> document_lines service ! 8 = ''N/A'')
    \<and> (\<forall>x. field x ''name'' = None \<longrightarrow>
          doc_requirement x ! 0 = ''\<newline>### N/A'' \<and> doc_name_bullet x = ''- N/A''
          \<and> doc_link_bullet x =
              (if truthy (field_or x ''link'' (JStr []))
               then ''- [N/A]('' @ py_str (field_or x ''link'' (JStr [])) @ '')''
               else ''- N/A''))
    \<and> (\<forall>x. field x ''description'' = None \<longrightarrow> doc_requirement x ! 1 = [])"
proof -
  note eq = format_service_details_doc [OF assms]
  have a0: "field service ''name'' = None \<longrightarrow> document_lines service ! 0 = ''# N/A''"
    by (simp add: document_lines_def doc_header_def shown_def)
  have a1: "field service ''id'' = None \<longrightarrow> document_lines service ! 1 = ''\<newline>**ID:** N/A''"
    by (simp add: document_lines_def doc_header_def shown_def)
  have a2: "field (meta_of service) ''url'' = None \<longrightarrow>
      document_lines service ! 2 = ''**URL:** N/A''"
    by (simp add: document_lines_def doc_header_def shown_def)
  have a4: "field service ''description'' = None \<longrightarrow> document_lines service ! 4 = ''N/A''"
    by (simp add: document_lines_def doc_header_def shown_def)
  have a6: "field service ''fees'' = None \<longrightarrow> document_lines service ! 6 = ''N/A''"
    by (simp add: document_lines_def doc_header_def shown_def)
  have a8: "field service ''process_time'' = None \<longrightarrow> document_lines service ! 8 = ''N/A''"
    by (simp add: document_lines_def doc_header_def shown_def)
  have e: "\<forall>x. field x ''name'' = None \<longrightarrow>
          doc_requirement x ! 0 = ''\<newline>### N/A'' \<and> doc_name_bullet x = ''- N/A''
          \<and> doc_link_bullet x =
              (if truthy (field_or x ''link'' (JStr []))
               then ''- [N/A]('' @ py_str (field_or x ''link'' (JStr [])) @ '')''
               else ''- N/A'')"
    by (simp add: doc_requirement_def doc_name_bullet_def doc_link_bullet_def shown_def)
  have d: "\<forall>x. field x ''description'' = None \<longrightarrow> doc_requirement x ! 1 = []"
    by (simp add: doc_requirement_def text_of_def)
  from eq a0 a1 a2 a4 a6 a8 e d show ?thesis by blast
qed

lemma bare_service_well_typed: "well_typed_service bare_service"
  by code_simp

theorem format_service_details_total_witness:
  "well_typed_service bare_service
   \<and> field bare_service ''name'' = None \<and> field bare_service ''id'' = None
   \<and> field (meta_of bare_service) ''url'' = None \<and> field bare_service ''description'' = None
   \<and> field bare_service ''fees'' = None \<and> field bare_service ''process_time'' = None
   \<and> field (JObj []) ''name'' = None \<and> field (JObj []) ''description'' = None
   \<and> document_lines bare_service =
       [''# N/A'', ''\<newline>**ID:** N/A'', ''**URL:** N/A'', ''\<newline>## Description'',
        ''N/A'', ''\<newline>## Fees'', ''N/A'', ''\<newline>## Process Time'', ''N/A'',
        ''\<newline>## Requirements'', ''\<newline>### N/A'', [], ''\<newline>## Prerequisites'', ''- N/A'',
        ''\<newline>## Forms'', ''- N/A'', ''\<newline>## Responsible Authorities'', ''- N/A'',
        ''\<newline>## Legal Basis'', ''- N/A'']
   \<and> format_service_details bare_service
       = Inr ''# N/A\<newline>\<newline>**ID:** N/A\<newline>**URL:** N/A\<newline>\<newline>## Description\<newline>N/A\<newline>\<newline>## Fees\<newline>N/A\<newline>\<newline>## Process Time\<newline>N/A\<newline>\<newline>## Requirements\<newline>\<newline>### N/A\<newline>\<newline>\<newline>## Prerequisites\<newline>- N/A\<newline>\<newline>## Forms\<newline>- N/A\<newline>\<newline>## Responsible Authorities\<newline>- N/A\<newline>\<newline>## Legal Basis\<newline>- N/A''"
proof -
  note t = format_service_details_total [OF bare_service_well_typed]
  have f: "field bare_service ''name'' = None \<and> field bare_service ''id'' = None
   \<and> field (meta_of bare_service) ''url'' = None \<and> field bare_service ''description'' = None
   \<and> field bare_service ''fees'' = None \<and> field bare_service ''process_time'' = None
   \<and> field (JObj []) ''name'' = None \<and> field (JObj []) ''description'' = None"
    by code_simp
  have d: "document_lines bare_service =
       [''# N/A'', ''\<newline>**ID:** N/A'', ''**URL:** N/A'', ''\<newline>## Description'',
        ''N/A'', ''\<newline>## Fees'', ''N/A'', ''\<newline>## Process Time'', ''N/A'',
        ''\<newline>## Requirements'', ''\<newline>### N/A'', [], ''\<newline>## Prerequisites'', ''- N/A'',
        ''\<newline>## Forms'', ''- N/A'', ''\<newline>## Responsible Authorities'', ''- N/A'',
        ''\<newline>## Legal Basis'', ''- N/A'']"
    by code_simp
  have j: "format_service_details bare_service = Inr (join ''\<newline>'' (document_lines bare_service))"
    using t by blast
  have r: "format_service_details bare_service
       = Inr ''# N/A\<newline>\<newline>**ID:** N/A\<newline>**URL:** N/A\<newline>\<newline>## Description\<newline>N/A\<newline>\<newline>## Fees\<newline>N/A\<newline>\<newline>## Process Time\<newline>N/A\<newline>\<newline>## Requirements\<newline>\<newline>### N/A\<newline>\<newline>\<newline>## Prerequisites\<newline>- N/A\<newline>\<newline>## Forms\<newline>- N/A\<newline>\<newline>## Responsible Authorities\<newline>- N/A\<newline>\<newline>## Legal Basis\<newline>- N/A''"
    unfolding j d by simp
  from bare_service_well_typed f d r show ?thesis by blast
qed

text \<open>A requirement with no description is written with an empty line, not with the
  placeholder.\<close>

theorem requirement_description_counterexample:
  "field (JObj [(''name'', JStr ''Foto'')]) ''description'' = None
   \<and> requirement_loop [JObj [(''name'', JStr ''Foto'')]] = Inr [JStr ''\<newline>### Foto'', JStr []]
   \<and> format_service_details foto_service
       = Inr ''# Reisepass\<newline>\<newline>**ID:** N/A\<newline>**URL:** N/A\<newline>\<newline>## Description\<newline>N/A\<newline>\<newline>## Fees\<newline>N/A\<newline>\<newline>## Process Time\<newline>N/A\<newline>\<newline>## Requirements\<newline>\<newline>### Foto\<newline>''"
  by code_simp

section \<open>Fields that are present and hold \<open>null\<close>\<close>

text \<open>A field that is present with the value \<open>null\<close> is not an absent field: the default of
  \<^verbatim>\<open>get\<close> is not used, the formatter's join raises on the fees, and the search raises on
  the name.\<close>

lemma format_null_fees_raises:
  "format_service_details null_fees_service
     = Inl (TypeError ''sequence item 6: expected str instance, NoneType found'')"
  by code_simp

lemma search_null_name_raises:
  "search_services null_name_data (JStr ''a'') = Inl (no_attribute JNull ''lower'')"
  by code_simp

section \<open>The exceptions the query functions and the formatter raise\<close>

named_theorems catch

lemma catchable_Inr [simp]: "catchable (Inr x)"
  by (simp add: catchable_def)

lemma catchable_Inl [simp]: "catchable (Inl e) = is_exception e"
  by (simp add: catchable_def)

lemma catchable_seq: "catchable m \<Longrightarrow> (\<And>x. catchable (f x)) \<Longrightarrow> catchable (seq m f)"
  by (cases m) simp_all

lemma catchable_if: "catchable a \<Longrightarrow> catchable b \<Longrightarrow> catchable (if c then a else b)"
  by simp

lemma catchable_case_option:
  "catchable a \<Longrightarrow> (\<And>x. catchable (b x)) \<Longrightarrow> catchable (case v of None \<Rightarrow> a | Some x \<Rightarrow> b x)"
  by (cases v) simp_all

lemmas catchable_steps = catchable_seq catchable_if catchable_case_option catchable_Inr

lemma catchable_py_get [catch]: "catchable (py_get v k d)"
  by (cases v) (simp_all add: no_attribute_def)

lemma catchable_py_iter [catch]: "catchable (py_iter v)"
  by (cases v) simp_all

lemma catchable_py_slice_to [catch]: "catchable (py_slice_to v n)"
  by (cases v) (simp_all add: not_subscriptable_def)

lemma catchable_py_first [catch]: "catchable (py_first v)"
  by (cases v rule: py_first.cases) (simp_all add: not_subscriptable_def)

lemma catchable_py_len [catch]: "catchable (py_len v)"
  by (cases v) simp_all

lemma catchable_py_lower [catch]: "catchable (py_lower v)"
  by (cases v) (simp_all add: no_attribute_def)

lemma catchable_clamp_limit [catch]: "catchable (clamp_limit v)"
  by (cases v) simp_all

lemma catchable_join_items [catch]: "catchable (join_items i xs)"
  by (induction i xs rule: join_items.induct) (auto intro!: catchable_seq)

lemma catchable_py_join [catch]: "catchable (py_join sep xs)"
  unfolding py_join_def by (intro catchable_steps catch)

lemma catchable_search_body [catch]: "catchable (search_body q service)"
  unfolding search_body_def by (intro catchable_steps catch)

lemma catchable_search_loop [catch]: "catchable (search_loop q services)"
  by (induction services) (simp_all, intro catchable_steps catch, assumption?)

lemma catchable_search_services [catch]: "catchable (search_services data query)"
  unfolding search_services_def by (intro catchable_steps catch)

lemma catchable_get_service_loop [catch]: "catchable (get_service_loop services service_id)"
  by (induction services) (simp_all, intro catchable_steps catch, assumption?)

lemma catchable_get_service_by_id [catch]: "catchable (get_service_by_id data service_id)"
  unfolding get_service_by_id_def by (intro catchable_steps catch)

lemma catchable_list_body [catch]: "catchable (list_body service)"
  unfolding list_body_def by (intro catchable_steps catch)

lemma catchable_list_loop [catch]: "catchable (list_loop services)"
  by (induction services) (simp_all, intro catchable_steps catch, assumption?)

lemma catchable_list_all_services [catch]: "catchable (list_all_services data limit)"
  unfolding list_all_services_def by (intro catchable_steps catch)

lemma catchable_header_lines [catch]: "catchable (header_lines service)"
  unfolding header_lines_def by (intro catchable_steps catch)

lemma catchable_requirement_loop [catch]: "catchable (requirement_loop xs)"
  by (induction xs) (simp_all, intro catchable_steps catch, assumption?)

lemma catchable_name_bullet_loop [catch]: "catchable (name_bullet_loop xs)"
  by (induction xs) (simp_all, intro catchable_steps catch, assumption?)

lemma catchable_link_bullet_loop [catch]: "catchable (link_bullet_loop xs)"
  by (induction xs) (simp_all, intro catchable_steps catch, assumption?)

lemma catchable_requirements_lines [catch]: "catchable (requirements_lines service)"
  unfolding requirements_lines_def by (intro catchable_steps catch)

lemma catchable_prerequisites_lines [catch]: "catchable (prerequisites_lines service)"
  unfolding prerequisites_lines_def by (intro catchable_steps catch)

lemma catchable_forms_lines [catch]: "catchable (forms_lines service)"
  unfolding forms_lines_def by (intro catchable_steps catch)

lemma catchable_online_lines [catch]: "catchable (online_lines service)"
  unfolding online_lines_def by (intro catchable_steps catch)

lemma catchable_appointment_lines [catch]: "catchable (appointment_lines service)"
  unfolding appointment_lines_def by (intro catchable_steps catch)

lemma catchable_authorities_lines [catch]: "catchable (authorities_lines service)"
  unfolding authorities_lines_def by (intro catchable_steps catch)

lemma catchable_legal_lines [catch]: "catchable (legal_lines service)"
  unfolding legal_lines_def by (intro catchable_steps catch)

lemma catchable_format_lines [catch]: "catchable (format_lines service)"
  unfolding format_lines_def by (intro catchable_steps catch)

lemma catchable_format_service_details [catch]: "catchable (format_service_details service)"
  unfolding format_service_details_def by (intro catchable_steps catch)

lemma catchable_stats_text [catch]: "catchable (stats_text data)"
  unfolding stats_text_def by (intro catchable_steps catch)

lemma catchable_dispatch: "catchable (dispatch data name arguments)"
  unfolding dispatch_def by (intro catchable_steps catch)

lemma dispatch_raises_exception: "dispatch data name arguments = Inl e \<Longrightarrow> is_exception e"
  using catchable_dispatch [of data name arguments] by simp

section \<open>The data fetcher and its cache\<close>

lemma fetch_begin_cached:
  "services_cache st \<noteq> JNull \<Longrightarrow> fetch_begin st = (Cached (services_cache st), st)"
  by (simp add: fetch_begin_def)

lemma fetch_begin_cache: "services_cache (snd (fetch_begin st)) = services_cache st"
  by (simp add: fetch_begin_def)

lemma fetch_cached:
  "services_cache st \<noteq> JNull \<Longrightarrow> fetch_services_data net st = (Inr (services_cache st), st)"
  by (simp add: fetch_services_data_def fetch_begin_def)

lemma fetch_complete_cases:
  assumes "fetch_complete net i st = (r, st1)"
  shows "(\<exists>doc. r = Inr doc \<and> net i = Inr (Response None (Inr doc))
            \<and> st1 = st\<lparr>services_cache := doc\<rparr>)
       \<or> (\<exists>e. r = Inl e \<and> st1 = st
            \<and> (net i = Inl e
               \<or> (\<exists>resp. net i = Inr resp
                     \<and> (status_error resp = Some e
                        \<or> (status_error resp = None \<and> json_body resp = Inl e)))))"
proof (cases "net i")
  case (Inl e)
  with assms show ?thesis by (auto simp: fetch_complete_def)
next
  case (Inr resp)
  with assms show ?thesis
    by (cases resp) (auto simp: fetch_complete_def split: option.splits sum.splits)
qed

lemma fetch_success_cases:
  assumes "fetch_services_data net st = (Inr d, st1)"
  shows "(services_cache st \<noteq> JNull \<and> d = services_cache st \<and> st1 = st)
       \<or> (services_cache st = JNull
          \<and> st1 = st\<lparr>requests := Suc (requests st), services_cache := d\<rparr>)"
proof (cases "services_cache st = JNull")
  case False
  with assms show ?thesis by (auto simp: fetch_cached)
next
  case True
  with assms have "fetch_complete net (requests st) (st\<lparr>requests := Suc (requests st)\<rparr>)
      = (Inr d, st1)"
    by (simp add: fetch_services_data_def fetch_begin_def)
  from fetch_complete_cases [OF this] True show ?thesis by auto
qed

lemma fetch_success_cache:
  assumes "fetch_services_data net st = (Inr d, st1)"
  shows "services_cache st1 = d"
  using fetch_success_cases [OF assms] by auto





section \<open>The handler of the dispatcher\<close>

lemma respond_dispatch:
  "respond (Inr data) name arguments =
     Inr [TextContent (case dispatch data name arguments of
                         Inl e \<Rightarrow> ''Error: '' @ exn_str e | Inr text \<Rightarrow> text)]"
  using dispatch_raises_exception [of data name arguments]
  by (simp add: respond_def handle_exception_def split: sum.splits)

lemma call_tool_fetch_failed:
  "fetch_services_data net st = (Inl e, st1) \<Longrightarrow> is_exception e \<Longrightarrow>
     call_tool net name arguments st = (Inr [TextContent (''Error: '' @ exn_str e)], st1)"
  by (simp add: call_tool_def respond_def handle_exception_def)

lemma call_tool_fetch_raised:
  "fetch_services_data net st = (Inl e, st1) \<Longrightarrow> \<not> is_exception e \<Longrightarrow>
     call_tool net name arguments st = (Inl e, st1)"
  by (simp add: call_tool_def respond_def handle_exception_def)

lemma call_tool_dispatch_failed:
  "fetch_services_data net st = (Inr data, st1) \<Longrightarrow> dispatch data name arguments = Inl e \<Longrightarrow>
     call_tool net name arguments st = (Inr [TextContent (''Error: '' @ exn_str e)], st1)"
  by (simp add: call_tool_def respond_dispatch)

lemma call_tool_dispatched:
  "fetch_services_data net st = (Inr data, st1) \<Longrightarrow> dispatch data name arguments = Inr text \<Longrightarrow>
     call_tool net name arguments st = (Inr [TextContent text], st1)"
  by (simp add: call_tool_def respond_dispatch)

lemma call_tool_raises_iff:
  "call_tool net name arguments st = (Inl e, st1)
     \<longleftrightarrow> fetch_services_data net st = (Inl e, st1) \<and> \<not> is_exception e"
proof (cases "fetch_services_data net st")
  case (Pair fetched st2)
  show ?thesis
  proof (cases fetched)
    case (Inl e2)
    with Pair show ?thesis
      by (auto simp: call_tool_def respond_def handle_exception_def)
  next
    case (Inr data)
    with Pair show ?thesis
      by (simp add: call_tool_def respond_dispatch)
  qed
qed

lemma call_tool_state: "snd (call_tool net name arguments st) = snd (fetch_services_data net st)"
  by (simp add: call_tool_def split: prod.splits)

lemma call_tool_cached:
  "services_cache st \<noteq> JNull \<Longrightarrow> snd (call_tool net name arguments st) = st"
  by (simp add: call_tool_state fetch_cached)

section \<open>Interleaved invocations\<close>

lemma sched_step_idle_cached:
  assumes "services_cache st \<noteq> JNull"
  shows "snd (sched_step net ev (idle st)) = idle st"
  using assms by (cases ev) (simp_all add: idle_def fetch_begin_def)

lemma run_idle_cached:
  assumes "services_cache st \<noteq> JNull"
  shows "snd (run net evs (idle st)) = idle st"
proof (induction evs)
  case Nil
  show ?case by simp
next
  case (Cons ev evs)
  from sched_step_idle_cached [OF assms, of net ev] Cons show ?case
    by (auto split: prod.splits)
qed

lemma sched_step_cache_written:
  assumes "sched_step net ev p = (out, p1)"
    and "services_cache (proc_state p1) \<noteq> services_cache (proc_state p)"
  shows "\<exists>i name arguments. ev = Resume i \<and> map_of (pending p) i = Some (name, arguments)
           \<and> fetch_complete net i (proc_state p)
               = (Inr (services_cache (proc_state p1)), proc_state p1)"
proof (cases ev)
  case (Invoke name arguments)
  with assms show ?thesis
    by (auto simp: fetch_begin_def split: if_splits)
next
  case (Resume i)
  show ?thesis
  proof (cases "map_of (pending p) i")
    case None
    with assms Resume show ?thesis by simp
  next
    case (Some t)
    obtain name arguments where t: "t = (name, arguments)" by (cases t)
    obtain r st1 where c: "fetch_complete net i (proc_state p) = (r, st1)"
      by (cases "fetch_complete net i (proc_state p)")
    from assms(1) Resume Some t c have p1: "proc_state p1 = st1" by auto
    from fetch_complete_cases [OF c] assms(2) p1 have "r = Inr (services_cache st1)"
      by auto
    with Resume Some t c p1 show ?thesis by simp
  qed
qed

text \<open>An invocation that nothing interleaves with is \<^verbatim>\<open>call_tool\<close>.\<close>

lemma call_tool_as_events:
  "run net [Invoke name arguments, Resume (requests st)] (idle st)
     = ([fst (call_tool net name arguments st)], idle (snd (call_tool net name arguments st)))"
proof (cases "services_cache st = JNull")
  case True
  then show ?thesis
    by (simp add: idle_def call_tool_def fetch_services_data_def fetch_begin_def
        split: prod.splits)
next
  case False
  then show ?thesis
    by (simp add: idle_def call_tool_def fetch_services_data_def fetch_begin_def)
qed

section \<open>The cache after a successful fetch\<close>

text \<open>
  C9 (amended). After a call of the data fetcher has returned a dataset (a document other
  than \<open>null\<close>, which is Python's \<^verbatim>\<open>None\<close>), the cache holds that dataset, and a call that
  begins on this state returns exactly it at once: no request is sent and the state is not
  changed, on any network; so does every call that begins while the cache holds a dataset. No tool invocation run on this state changes it, and with no
  fetch waiting for its reply no schedule of invocations changes it: there is no staleness
  check, expiry or invalidation. In any schedule, the cache is written only when a fetch
  that found the cache empty and is waiting for its reply is resumed, and then with the
  document of that reply.
\<close>

theorem fetch_services_data_cached:
  assumes "fetch_services_data net st = (Inr d, st1)" and "d \<noteq> JNull"
  shows "services_cache st1 = d
    \<and> fetch_begin st1 = (Cached d, st1)
    \<and> (\<forall>st'. services_cache st' \<noteq> JNull
          \<longrightarrow> fetch_begin st' = (Cached (services_cache st'), st'))
    \<and> (\<forall>net'. fetch_services_data net' st1 = (Inr d, st1))
    \<and> (\<forall>net' name arguments. snd (call_tool net' name arguments st1) = st1)
    \<and> (\<forall>net' evs. snd (run net' evs (idle st1)) = idle st1)
    \<and> (\<forall>net' ev p out p1. sched_step net' ev p = (out, p1)
           \<and> services_cache (proc_state p1) \<noteq> services_cache (proc_state p)
         \<longrightarrow> (\<exists>i name arguments. ev = Resume i
                \<and> map_of (pending p) i = Some (name, arguments)
                \<and> fetch_complete net' i (proc_state p)
                    = (Inr (services_cache (proc_state p1)), proc_state p1)))"
proof -
  have c: "services_cache st1 = d" using assms(1) by (rule fetch_success_cache)
  with assms(2) have ne: "services_cache st1 \<noteq> JNull" by simp
  have b: "fetch_begin st1 = (Cached d, st1)"
    using fetch_begin_cached [OF ne] c by simp
  have f: "\<forall>net'. fetch_services_data net' st1 = (Inr d, st1)"
    using fetch_cached [OF ne] c by simp
  have t: "\<forall>net' name arguments. snd (call_tool net' name arguments st1) = st1"
    using call_tool_cached [OF ne] by simp
  have s: "\<forall>net' evs. snd (run net' evs (idle st1)) = idle st1"
    using run_idle_cached [OF ne] by simp
  have w: "\<forall>net' ev p out p1. sched_step net' ev p = (out, p1)
           \<and> services_cache (proc_state p1) \<noteq> services_cache (proc_state p)
         \<longrightarrow> (\<exists>i name arguments. ev = Resume i
                \<and> map_of (pending p) i = Some (name, arguments)
                \<and> fetch_complete net' i (proc_state p)
                    = (Inr (services_cache (proc_state p1)), proc_state p1))"
    using sched_step_cache_written by blast
  have g: "\<forall>st'. services_cache st' \<noteq> JNull
          \<longrightarrow> fetch_begin st' = (Cached (services_cache st'), st')"
    using fetch_begin_cached by blast
  show ?thesis
    by (rule conjI [OF c conjI [OF b conjI [OF g conjI [OF f conjI [OF t conjI [OF s w]]]]]])
qed

lemma good_fetch: "fetch_services_data good_net initial_state = (Inr two_data, loaded_state)"
  by (simp add: fetch_services_data_def fetch_begin_def fetch_complete_def good_net_def
      initial_state_def loaded_state_def)

lemma two_data_not_null: "two_data \<noteq> JNull"
  by (simp add: two_data_def)

theorem fetch_services_data_cached_witness:
  "fetch_services_data good_net initial_state = (Inr two_data, loaded_state)
   \<and> two_data \<noteq> JNull
   \<and> services_cache loaded_state = two_data
   \<and> fetch_begin loaded_state = (Cached two_data, loaded_state)
   \<and> fetch_services_data failing_net loaded_state = (Inr two_data, loaded_state)
   \<and> snd (call_tool failing_net ''list_services'' (JObj []) loaded_state) = loaded_state
   \<and> snd (run failing_net [Invoke ''get_services_stats'' (JObj []), Resume 0,
                            Invoke ''bogus'' JNull] (idle loaded_state))
       = idle loaded_state"
  using fetch_services_data_cached [OF good_fetch two_data_not_null] good_fetch two_data_not_null
  by blast

text \<open>A document that is \<open>null\<close> is returned by the first call and is not told from an empty
  cache: the next call sends a request again. And when two invocations both find the cache
  empty, the first to be resumed fills the cache and returns, and the second one, resumed
  later, writes the cache again with another document.\<close>

theorem cache_rewritten_counterexample:
  "fetch_services_data null_net initial_state = (Inr JNull, failed_state)
   \<and> fetch_services_data null_net failed_state
       = (Inr JNull, \<lparr>services_cache = JNull, requests = 2\<rparr>)
   \<and> fetch_begin initial_state = (Pending 0, failed_state)
   \<and> fetch_begin failed_state = (Pending 1, racing_state)
   \<and> fetch_complete changing_net 0 racing_state
       = (Inr two_data, \<lparr>services_cache = two_data, requests = 2\<rparr>)
   \<and> fetch_complete changing_net 1 \<lparr>services_cache = two_data, requests = 2\<rparr>
       = (Inr lookup_data, \<lparr>services_cache = lookup_data, requests = 2\<rparr>)
   \<and> lookup_data \<noteq> two_data
   \<and> proc_state (snd (run changing_net
         [Invoke ''get_services_stats'' (JObj []), Invoke ''get_services_stats'' (JObj []),
          Resume 0] (idle initial_state)))
       = \<lparr>services_cache = two_data, requests = 2\<rparr>
   \<and> proc_state (snd (run changing_net
         [Invoke ''get_services_stats'' (JObj []), Invoke ''get_services_stats'' (JObj []),
          Resume 0, Resume 1] (idle initial_state)))
       = \<lparr>services_cache = lookup_data, requests = 2\<rparr>"
  by code_simp


lemma flaky_fetch:
  "fetch_services_data flaky_net initial_state
     = (Inl (LibraryError ''All connection attempts failed''), failed_state)"
  by (simp add: fetch_services_data_def fetch_begin_def fetch_complete_def flaky_net_def
      initial_state_def failed_state_def)

lemma cancelled_fetch:
  "fetch_services_data cancelled_net initial_state = (Inl (CancelledError []), failed_state)"
  by (simp add: fetch_services_data_def fetch_begin_def fetch_complete_def cancelled_net_def
      initial_state_def failed_state_def)


section \<open>The dispatcher\<close>

lemma dispatch_missing_query:
  assumes "is_record arguments" and "\<not> truthy (field_or arguments ''query'' (JStr []))"
  shows "dispatch data ''search_services'' arguments = Inr ''Error: query parameter is required''"
  using assms by (simp add: dispatch_def py_get_record)

lemma dispatch_missing_service_id:
  assumes "is_record arguments" and "\<not> truthy (field_or arguments ''service_id'' (JStr []))"
  shows "dispatch data ''get_service_details'' arguments
           = Inr ''Error: service_id parameter is required''"
  using assms by (simp add: dispatch_def py_get_record)

lemma dispatch_unknown:
  assumes "name \<noteq> ''search_services''" and "name \<noteq> ''get_service_details''"
    and "name \<noteq> ''list_services''" and "name \<noteq> ''get_services_stats''"
  shows "dispatch data name arguments = Inr (''Unknown tool: '' @ name)"
  using assms by (simp add: dispatch_def)

text \<open>
  C5 (amended). The dispatcher loads the dataset first and looks at the parameters after
  that. When the load succeeds, a \<open>query\<close> (for \<open>search_services\<close>) or a \<open>service_id\<close> (for
  \<open>get_service_details\<close>) that is missing or empty yields the parameter-error message as an
  ordinary text response. When the load fails with an exception that the handler catches,
  the response is the text \<open>Error: \<close> followed by the description of the failure, whatever
  the parameters are; an exception that the handler does not catch leaves the dispatcher,
  whatever the parameters are.
\<close>

theorem call_tool_required_parameter:
  "(fetch_services_data net st = (Inr data, st1) \<and> is_record arguments
      \<and> \<not> truthy (field_or arguments ''query'' (JStr []))
     \<longrightarrow> call_tool net ''search_services'' arguments st
           = (Inr [TextContent ''Error: query parameter is required''], st1))
   \<and> (fetch_services_data net st = (Inr data, st1) \<and> is_record arguments
      \<and> \<not> truthy (field_or arguments ''service_id'' (JStr []))
     \<longrightarrow> call_tool net ''get_service_details'' arguments st
           = (Inr [TextContent ''Error: service_id parameter is required''], st1))
   \<and> (fetch_services_data net st = (Inl e, st1) \<and> is_exception e
     \<longrightarrow> call_tool net name arguments st
           = (Inr [TextContent (''Error: '' @ exn_str e)], st1))
   \<and> (fetch_services_data net st = (Inl e, st1) \<and> \<not> is_exception e
     \<longrightarrow> call_tool net name arguments st = (Inl e, st1))"
proof -
  have a: "fetch_services_data net st = (Inr data, st1) \<and> is_record arguments
      \<and> \<not> truthy (field_or arguments ''query'' (JStr []))
     \<longrightarrow> call_tool net ''search_services'' arguments st
           = (Inr [TextContent ''Error: query parameter is required''], st1)"
    by (auto intro: call_tool_dispatched dispatch_missing_query)
  have b: "fetch_services_data net st = (Inr data, st1) \<and> is_record arguments
      \<and> \<not> truthy (field_or arguments ''service_id'' (JStr []))
     \<longrightarrow> call_tool net ''get_service_details'' arguments st
           = (Inr [TextContent ''Error: service_id parameter is required''], st1)"
    by (auto intro: call_tool_dispatched dispatch_missing_service_id)
  have c: "fetch_services_data net st = (Inl e, st1) \<and> is_exception e
     \<longrightarrow> call_tool net name arguments st
           = (Inr [TextContent (''Error: '' @ exn_str e)], st1)"
    using call_tool_fetch_failed [of net st e st1 name arguments] by blast
  have d: "fetch_services_data net st = (Inl e, st1) \<and> \<not> is_exception e
     \<longrightarrow> call_tool net name arguments st = (Inl e, st1)"
    by (auto intro: call_tool_fetch_raised)
  show ?thesis
    by (rule conjI [OF a conjI [OF b conjI [OF c d]]])
qed

theorem call_tool_required_parameter_witness:
  "fetch_services_data good_net initial_state = (Inr two_data, loaded_state)
   \<and> call_tool good_net ''search_services'' (JObj []) initial_state
       = (Inr [TextContent ''Error: query parameter is required''], loaded_state)
   \<and> call_tool good_net ''search_services'' (JObj [(''query'', JStr [])]) initial_state
       = (Inr [TextContent ''Error: query parameter is required''], loaded_state)
   \<and> call_tool good_net ''get_service_details'' (JObj [(''query'', JStr ''x'')]) initial_state
       = (Inr [TextContent ''Error: service_id parameter is required''], loaded_state)
   \<and> call_tool flaky_net ''get_service_details'' (JObj [(''service_id'', JStr ''7'')])
        initial_state
       = (Inr [TextContent ''Error: All connection attempts failed''], failed_state)
   \<and> call_tool cancelled_net ''search_services'' (JObj []) initial_state
       = (Inl (CancelledError []), failed_state)"
proof -
  have a: "call_tool good_net ''search_services'' (JObj []) initial_state
       = (Inr [TextContent ''Error: query parameter is required''], loaded_state)"
    using call_tool_required_parameter [of good_net initial_state two_data loaded_state "JObj []"]
      good_fetch
    by (simp add: field_or_def)
  have b: "call_tool good_net ''search_services'' (JObj [(''query'', JStr [])]) initial_state
       = (Inr [TextContent ''Error: query parameter is required''], loaded_state)"
    using call_tool_required_parameter [of good_net initial_state two_data loaded_state
        "JObj [(''query'', JStr [])]"] good_fetch
    by (simp add: field_or_def)
  have c: "call_tool good_net ''get_service_details'' (JObj [(''query'', JStr ''x'')]) initial_state
       = (Inr [TextContent ''Error: service_id parameter is required''], loaded_state)"
    using call_tool_required_parameter [of good_net initial_state two_data loaded_state
        "JObj [(''query'', JStr ''x'')]"] good_fetch
    by (simp add: field_or_def)
  have d: "call_tool flaky_net ''get_service_details'' (JObj [(''service_id'', JStr ''7'')])
        initial_state
       = (Inr [TextContent ''Error: All connection attempts failed''], failed_state)"
    using call_tool_required_parameter [where net = flaky_net and st = initial_state
        and ?st1.0 = failed_state and e = "LibraryError ''All connection attempts failed''"
        and name = "''get_service_details''"
        and arguments = "JObj [(''service_id'', JStr ''7'')]"] flaky_fetch
    by simp
  have x: "call_tool cancelled_net ''search_services'' (JObj []) initial_state
       = (Inl (CancelledError []), failed_state)"
    using call_tool_required_parameter [where net = cancelled_net and st = initial_state
        and ?st1.0 = failed_state and e = "CancelledError []"
        and name = "''search_services''" and arguments = "JObj []"] cancelled_fetch
    by simp
  from good_fetch a b c d x show ?thesis by simp
qed

lemma failing_fetch:
  "fetch_services_data failing_net initial_state
     = (Inl (LibraryError ''All connection attempts failed''), failed_state)"
  by (simp add: fetch_services_data_def fetch_begin_def fetch_complete_def failing_net_def
      initial_state_def failed_state_def)

text \<open>With no query and a network that fails, the response is the failure of the fetch and
  not the parameter-error message.\<close>

theorem parameter_check_after_fetch_counterexample:
  "call_tool failing_net ''search_services'' (JObj []) initial_state
     = (Inr [TextContent ''Error: All connection attempts failed''], failed_state)
   \<and> fst (call_tool failing_net ''search_services'' (JObj []) initial_state)
       \<noteq> Inr [TextContent ''Error: query parameter is required'']"
  by (simp add: call_tool_def failing_fetch respond_def handle_exception_def)

text \<open>
  C7 (amended). A tool invocation raises to the host exactly when the fetch of the dataset
  raises an exception that is no \<^verbatim>\<open>Exception\<close> (the cancellation of the task at the awaited
  request); the handler is \<^verbatim>\<open>except Exception\<close>. In every other case it returns one text item:
  when the fetch fails (request, status or parsing) with an \<^verbatim>\<open>Exception\<close>, the text \<open>Error: \<close>
  followed by the description of the failure; when the fetch succeeds and the dispatch
  raises, the text \<open>Error: \<close> followed by the description of that exception, which is always
  one the handler catches; when the fetch succeeds and the name is none of the four
  operations, the unknown-tool message. An unknown name with a fetch that fails gets the
  response of the failed fetch.
\<close>

theorem call_tool_never_raises:
  "(call_tool net name arguments st = (Inl e, st2)
      \<longleftrightarrow> fetch_services_data net st = (Inl e, st2) \<and> \<not> is_exception e)
   \<and> (fetch_services_data net st = (Inl e, st2) \<and> is_exception e
     \<longrightarrow> call_tool net name arguments st
           = (Inr [TextContent (''Error: '' @ exn_str e)], st2))
   \<and> (fetch_services_data net st = (Inr data, st2) \<and> dispatch data name arguments = Inl e
     \<longrightarrow> is_exception e
         \<and> call_tool net name arguments st
           = (Inr [TextContent (''Error: '' @ exn_str e)], st2))
   \<and> (fetch_services_data net st = (Inr data, st2) \<and> name \<noteq> ''search_services''
      \<and> name \<noteq> ''get_service_details'' \<and> name \<noteq> ''list_services''
      \<and> name \<noteq> ''get_services_stats''
     \<longrightarrow> call_tool net name arguments st
           = (Inr [TextContent (''Unknown tool: '' @ name)], st2))
   \<and> (fetch_services_data net st = (Inr data, st2)
     \<longrightarrow> (\<exists>text. call_tool net name arguments st = (Inr [TextContent text], st2)))"
proof -
  have d: "fetch_services_data net st = (Inr data, st2) \<and> name \<noteq> ''search_services''
      \<and> name \<noteq> ''get_service_details'' \<and> name \<noteq> ''list_services''
      \<and> name \<noteq> ''get_services_stats''
     \<longrightarrow> call_tool net name arguments st
           = (Inr [TextContent (''Unknown tool: '' @ name)], st2)"
    using call_tool_dispatched [of net st data st2 name arguments "''Unknown tool: '' @ name"]
      dispatch_unknown [of name data arguments] by blast
  have t: "fetch_services_data net st = (Inr data, st2)
     \<longrightarrow> (\<exists>text. call_tool net name arguments st = (Inr [TextContent text], st2))"
    by (simp add: call_tool_def respond_dispatch)
  have r: "call_tool net name arguments st = (Inl e, st2)
      \<longleftrightarrow> fetch_services_data net st = (Inl e, st2) \<and> \<not> is_exception e"
    by (rule call_tool_raises_iff)
  have f: "fetch_services_data net st = (Inl e, st2) \<and> is_exception e
     \<longrightarrow> call_tool net name arguments st
           = (Inr [TextContent (''Error: '' @ exn_str e)], st2)"
    using call_tool_fetch_failed [of net st e st2 name arguments] by blast
  have x: "fetch_services_data net st = (Inr data, st2) \<and> dispatch data name arguments = Inl e
     \<longrightarrow> is_exception e
         \<and> call_tool net name arguments st
           = (Inr [TextContent (''Error: '' @ exn_str e)], st2)"
    using call_tool_dispatch_failed [of net st data st2 name arguments e]
      dispatch_raises_exception [of data name arguments e] by blast
  show ?thesis
    by (rule conjI [OF r conjI [OF f conjI [OF x conjI [OF d t]]]])
qed

theorem call_tool_never_raises_witness:
  "call_tool failing_net ''list_services'' (JObj []) initial_state
     = (Inr [TextContent ''Error: All connection attempts failed''], failed_state)
   \<and> call_tool good_net ''bogus'' (JObj []) initial_state
       = (Inr [TextContent ''Unknown tool: bogus''], loaded_state)
   \<and> dispatch two_data ''search_services'' (JObj [(''query'', JInt 5)])
       = Inl (no_attribute (JInt 5) ''lower'')
   \<and> call_tool good_net ''search_services'' (JObj [(''query'', JInt 5)]) initial_state
       = (Inr [TextContent (''Error: '' @ sq @ ''int'' @ sq @ '' object has no attribute ''
                            @ sq @ ''lower'' @ sq)], loaded_state)
   \<and> fetch_services_data cancelled_net initial_state = (Inl (CancelledError []), failed_state)
   \<and> call_tool cancelled_net ''list_services'' (JObj []) initial_state
       = (Inl (CancelledError []), failed_state)"
proof -
  have a: "call_tool failing_net ''list_services'' (JObj []) initial_state
     = (Inr [TextContent ''Error: All connection attempts failed''], failed_state)"
    using call_tool_never_raises [where net = failing_net and st = initial_state
        and ?st2.0 = failed_state and e = "LibraryError ''All connection attempts failed''"
        and name = "''list_services''" and arguments = "JObj []"] failing_fetch
    by simp
  have b: "call_tool good_net ''bogus'' (JObj []) initial_state
       = (Inr [TextContent ''Unknown tool: bogus''], loaded_state)"
    using call_tool_never_raises [where net = good_net and st = initial_state
        and ?st2.0 = loaded_state and data = two_data
        and name = "''bogus''" and arguments = "JObj []"] good_fetch
    by simp
  have r: "dispatch two_data ''search_services'' (JObj [(''query'', JInt 5)])
       = Inl (no_attribute (JInt 5) ''lower'')"
    by (simp add: dispatch_def search_services_def)
  have c: "call_tool good_net ''search_services'' (JObj [(''query'', JInt 5)]) initial_state
       = (Inr [TextContent (''Error: '' @ sq @ ''int'' @ sq @ '' object has no attribute ''
                            @ sq @ ''lower'' @ sq)], loaded_state)"
    using call_tool_never_raises [where net = good_net and st = initial_state
        and ?st2.0 = loaded_state and data = two_data
        and e = "no_attribute (JInt 5) ''lower''"
        and name = "''search_services''" and arguments = "JObj [(''query'', JInt 5)]"]
      good_fetch r
    by (simp add: no_attribute_def)
  have x: "call_tool cancelled_net ''list_services'' (JObj []) initial_state
       = (Inl (CancelledError []), failed_state)"
    using call_tool_never_raises [where net = cancelled_net and st = initial_state
        and ?st2.0 = failed_state and e = "CancelledError []"
        and name = "''list_services''" and arguments = "JObj []"] cancelled_fetch
    by simp
  from a b r c cancelled_fetch x show ?thesis by simp
qed

text \<open>A request that is cancelled makes the invocation raise; and an unknown name with a
  network that fails is answered with the failure of the fetch, not with the unknown-tool
  message.\<close>

theorem call_tool_raises_counterexample:
  "call_tool cancelled_net ''get_services_stats'' (JObj []) initial_state
     = (Inl (CancelledError []), failed_state)
   \<and> call_tool failing_net ''bogus'' (JObj []) initial_state
       = (Inr [TextContent ''Error: All connection attempts failed''], failed_state)
   \<and> fst (call_tool failing_net ''bogus'' (JObj []) initial_state)
       \<noteq> Inr [TextContent ''Unknown tool: bogus'']"
  by (simp add: call_tool_def failing_fetch cancelled_fetch respond_def handle_exception_def)

end
